theory Spec2Isabelle
  imports Complex_Main
begin

section \<open>Purpose resolver (the Zaraz wrapper module of \<open>src/src/index.ts\<close>)\<close>

text \<open>
  The global \<open>window.zaraz?.consent\<close> object: an optional readiness flag and the lookup
  \<open>get(purposeId): boolean | undefined\<close>. \<open>window\<close> itself may be undefined (the
  code tests \<open>typeof window === 'undefined'\<close>), as may \<open>zaraz\<close> and \<open>consent\<close>.
\<close>

record consent_api =
  APIReady :: "bool option"
  consent_get :: "string \<Rightarrow> bool option"

record zaraz_obj =
  consent :: "consent_api option"

record window_obj =
  zaraz :: "zaraz_obj option"

text \<open>A purpose mapping entry is \<open>string[] | boolean | undefined\<close>.\<close>

datatype purpose_entry = Fixed bool | Ids "string list"



text \<open>\<open>window.zaraz?.consent\<close>, with \<open>None\<close> for undefined at any link of the chain.\<close>

definition zarazConsent :: "window_obj option \<Rightarrow> consent_api option" where
  "zarazConsent w =
     (case w of
        None \<Rightarrow> None
      | Some win \<Rightarrow> (case zaraz win of None \<Rightarrow> None | Some z \<Rightarrow> consent z))"

text \<open>\<open>Array.prototype.every\<close>: stops at the first element that fails the test.\<close>

fun every :: "('a \<Rightarrow> bool) \<Rightarrow> 'a list \<Rightarrow> bool" where
  "every p [] = True"
| "every p (x # xs) = (if p x then every p xs else False)"

text \<open>
  \<open>checkZarazConsent\<close>: the boolean case first, then undefined, then the array case,
  which needs the consent object and asks \<open>get(purposeId) === true\<close> of every id.
  An array is never falsy, so the empty array reaches the third case.
\<close>

fun checkZarazConsent :: "window_obj option \<Rightarrow> purpose_entry option \<Rightarrow> bool" where
  "checkZarazConsent w (Some (Fixed b)) = b"
| "checkZarazConsent w None = False"
| "checkZarazConsent w (Some (Ids mapping)) =
     (case zarazConsent w of
        None \<Rightarrow> False
      | Some c \<Rightarrow> every (\<lambda>purposeId. consent_get c purposeId = Some True) mapping)"


text \<open>
  \<open>isZarazConsentReady\<close>: \<open>APIReady\<close> truthy, or the consent object present (its
  \<open>get\<close> is a function whenever the object is there).
\<close>

definition isZarazConsentReady :: "window_obj option \<Rightarrow> bool" where
  "isZarazConsentReady w =
     (case zarazConsent w of None \<Rightarrow> False | Some c \<Rightarrow> True)"

section \<open>The consent integration class (\<open>SentryZarazConsentIntegrationClass\<close>)\<close>

subsection \<open>Events, capture calls and JavaScript values\<close>

record frame =
  filename :: "string option"
  lineno :: "nat option"

text \<open>One entry of \<open>event.exception.values\<close>: its \<open>value\<close> and \<open>stacktrace?.frames\<close>.\<close>

record exception_value =
  ex_value :: "string option"
  stacktrace_frames :: "frame list option"

record event =
  event_id :: "string option"
  event_type :: "string option"
  level :: "string option"
  message :: "string option"
  exception_values :: "exception_value list option"

type_synonym hint = string

text \<open>The three capture entry points of the Sentry module that the class calls.\<close>

datatype capture_call =
    CaptureException string string
  | CaptureMessage string "string option"
  | CaptureEvent event hint

text \<open>
  Values held by the \<open>any\<close>-typed configuration objects. A hook receives an item and
  returns it or \<open>null\<close>. An object is a finite map from property names; reading a
  missing property gives \<open>undefined\<close>.
\<close>

datatype js_value = JUndefined | JNull | JBool bool | JNum real | JFn "event \<Rightarrow> event option"

type_synonym js_object = "string \<rightharpoonup> js_value"

definition getProp :: "js_object \<Rightarrow> string \<Rightarrow> js_value" where
  "getProp obj k = (case obj k of None \<Rightarrow> JUndefined | Some v \<Rightarrow> v)"

text \<open>\<open>a ?? b\<close>\<close>

definition nullish :: "js_value \<Rightarrow> js_value \<Rightarrow> js_value" where
  "nullish a b = (case a of JUndefined \<Rightarrow> b | JNull \<Rightarrow> b | _ \<Rightarrow> a)"

text \<open>\<open>Object.assign(target, source)\<close>: every own property of the source is written.\<close>

definition Object_assign :: "js_object \<Rightarrow> js_object \<Rightarrow> js_object" where
  "Object_assign target source = target ++ source"

text \<open>\<open>a || b\<close> on an optional string: undefined and the empty string are falsy.\<close>

definition orElse :: "string option \<Rightarrow> string \<Rightarrow> string" where
  "orElse a b = (case a of None \<Rightarrow> b | Some s \<Rightarrow> if s = [] then b else s)"

fun join :: "string \<Rightarrow> string list \<Rightarrow> string" where
  "join sep [] = []"
| "join sep [x] = x"
| "join sep (x # y # ys) = x @ sep @ join sep (y # ys)"

text \<open>The decimal rendering of a number in a template string; \<open>d\<close> is below ten.\<close>

definition digitChar :: "nat \<Rightarrow> char" where
  "digitChar d = ''0123456789'' ! d"

fun showNat :: "nat \<Rightarrow> string" where
  "showNat n = (if n < 10 then [digitChar n] else showNat (n div 10) @ [digitChar (n mod 10)])"

declare showNat.simps [simp del]

subsection \<open>Consent snapshots\<close>

text \<open>
  The interface \<open>ConsentState\<close> of the class module: every field is optional. The value
  is a JavaScript object, so its keys are kept in the order in which they were inserted:
  \<open>insertedAt\<close> gives the position at which each key was written (smaller is earlier).
\<close>

record ConsentState =
  functional :: "bool option"
  analytics :: "bool option"
  marketing :: "bool option"
  preferences :: "bool option"
  insertedAt :: "string \<Rightarrow> nat"

text \<open>
  Modelled from the spec: \<open>getConsentStatus\<close> of \<open>./zaraz\<close> is imported by the class
  but its module is not among the sources. The spec's ConsentSnapshot is a "mapping from
  the same four purpose names to a resolved boolean"; the class assigns its
  \<open>functional\<close> field to the boolean \<open>hasConsent\<close>. Its result at the moment of a
  call is supplied by the environment of each step, and so is the order in which the
  absent function wrote the four keys of that result.
\<close>

record ConsentStatus =
  st_functional :: bool
  st_analytics :: bool
  st_marketing :: bool
  st_preferences :: bool
  st_insertedAt :: "string \<Rightarrow> nat"

text \<open>A snapshot used where the class expects a \<open>ConsentState\<close>: all four keys present.\<close>

definition asConsentState :: "ConsentStatus \<Rightarrow> ConsentState" where
  "asConsentState s =
     \<lparr> functional = Some (st_functional s), analytics = Some (st_analytics s),
       marketing = Some (st_marketing s), preferences = Some (st_preferences s),
       insertedAt = st_insertedAt s \<rparr>"

text \<open>
  The keys of a \<open>ConsentState\<close> in insertion order. Two keys of one object never share a
  position; on a tie the order of \<open>purposeKeys\<close> is kept.
\<close>

definition purposeKeys :: "string list" where
  "purposeKeys = [''functional'', ''analytics'', ''marketing'', ''preferences'']"

definition keyOrder :: "ConsentState \<Rightarrow> string list" where
  "keyOrder s = sort_key (insertedAt s) purposeKeys"

definition purposeValue :: "ConsentState \<Rightarrow> string \<Rightarrow> bool option" where
  "purposeValue s k =
     (if k = ''functional'' then functional s
      else if k = ''analytics'' then analytics s
      else if k = ''marketing'' then marketing s
      else if k = ''preferences'' then preferences s
      else None)"

text \<open>The position of a key in a list of keys, for writing an insertion order down.\<close>

definition orderOf :: "string list \<Rightarrow> string \<Rightarrow> nat" where
  "orderOf ks k = length (takeWhile (\<lambda>x. x \<noteq> k) ks)"

text \<open>
  \<open>JSON.stringify\<close> of a \<open>ConsentState\<close>: the keys are written in insertion order, and
  keys with value undefined are left out.
\<close>

definition jsonField :: "string \<Rightarrow> bool option \<Rightarrow> string list" where
  "jsonField k v =
     (case v of
        None \<Rightarrow> []
      | Some b \<Rightarrow> [CHR 0x22 # k @ [CHR 0x22] @ '':'' @ (if b then ''true'' else ''false'')])"

definition JSON_stringify :: "ConsentState \<Rightarrow> string" where
  "JSON_stringify s =
     ''{'' @ join '','' (concat (map (\<lambda>k. jsonField k (purposeValue s k)) (keyOrder s)))
     @ ''}''"

subsection \<open>The instance and the host it runs in\<close>

text \<open>What the class reads from and writes to the hub's scope.\<close>

record scope_data =
  sc_user :: "string option"
  sc_tags :: "(string \<times> string) list option"
  sc_contexts :: "(string \<times> string) list option"

datatype scope_call =
    SetUser "string option"
  | SetTag string "string option"
  | SetContext string "string option"

datatype timer_callback = WarningTimeout | ErrorTimeout

text \<open>
  The private fields of the instance, followed by the parts of the host that its methods
  touch: the hub captured by \<open>setupOnce\<close> (the live options object of its client, if it
  has one, and its scope), whether the Sentry module offers \<open>captureEvent\<close>, the capture
  and scope calls made so far, the names passed to \<open>logEvent\<close>, the messages of
  \<open>console.warn\<close> and \<open>console.error\<close>, the browser's table of pending timers
  (handle to delay and callback) with the last handle it issued, and the listeners
  registered on \<open>document\<close> for the two Zaraz events. Output of the private \<open>log\<close>
  (console, debug only) is not recorded.
\<close>

record world =
  isConsentReady :: bool
  hasConsent :: bool
  eventQueue :: "(event \<times> hint) list"
  consentChangeListener :: bool
  currentConsentState :: ConsentState
  warningTimeoutId :: "nat option"
  errorTimeoutId :: "nat option"
  originalSentryConfig :: js_object
  originalScopeData :: scope_data
  currentSentryHub :: bool
  clientOptions :: "js_object option"
  hubScope :: "scope_data option"
  hasCaptureEvent :: bool
  captured :: "capture_call list"
  scopeCalls :: "scope_call list"
  eventLog :: "string list"
  console :: "string list"
  timers :: "nat \<rightharpoonup> (nat \<times> timer_callback)"
  lastTimerId :: nat
  zarazLoadedListener :: bool
  choicesUpdatedListeners :: nat

text \<open>
  What a handler finds when it runs: the window (for \<open>window?.zaraz?.consent?.APIReady\<close>)
  and the value \<open>getConsentStatus(this.options.purposeMapping)\<close> returns at that moment.
\<close>

record env =
  win :: window_obj
  status :: ConsentStatus

definition apiReady :: "env \<Rightarrow> bool" where
  "apiReady e =
     (case zarazConsent (Some (win e)) of None \<Rightarrow> False | Some c \<Rightarrow> APIReady c = Some True)"

text \<open>The instance as the constructor leaves it, in a host with the given parts.\<close>

definition construct ::
  "js_object option \<Rightarrow> scope_data option \<Rightarrow> bool \<Rightarrow> nat \<Rightarrow> world" where
  "construct options scope captureEvent lastId =
     \<lparr> isConsentReady = False, hasConsent = False, eventQueue = [],
       consentChangeListener = False,
       currentConsentState =
         \<lparr> functional = None, analytics = None, marketing = None, preferences = None,
           insertedAt = (\<lambda>k. 0) \<rparr>,
       warningTimeoutId = None, errorTimeoutId = None,
       originalSentryConfig = Map.empty,
       originalScopeData = \<lparr> sc_user = None, sc_tags = None, sc_contexts = None \<rparr>,
       currentSentryHub = False,
       clientOptions = options, hubScope = scope, hasCaptureEvent = captureEvent,
       captured = [], scopeCalls = [], eventLog = [], console = [],
       timers = Map.empty, lastTimerId = lastId,
       zarazLoadedListener = False, choicesUpdatedListeners = 0 \<rparr>"

definition logEvent :: "string \<Rightarrow> world \<Rightarrow> world" where
  "logEvent name w = w \<lparr> eventLog := eventLog w @ [name] \<rparr>"

definition consoleOut :: "string \<Rightarrow> world \<Rightarrow> world" where
  "consoleOut msg w = w \<lparr> console := console w @ [msg] \<rparr>"

text \<open>\<open>this.currentSentryHub?.getClient()\<close> followed by \<open>getOptions()\<close>, and \<open>getScope()\<close>.\<close>

definition getClient :: "world \<Rightarrow> js_object option" where
  "getClient w = (if currentSentryHub w then clientOptions w else None)"

definition getScope :: "world \<Rightarrow> scope_data option" where
  "getScope w = (if currentSentryHub w then hubScope w else None)"

text \<open>
  \<open>setTimeout\<close> returns a fresh handle, an integer greater than zero, and
  \<open>clearTimeout\<close> drops the handle from the table.
\<close>

definition setTimeout :: "timer_callback \<Rightarrow> nat \<Rightarrow> world \<Rightarrow> nat \<times> world" where
  "setTimeout cb ms w =
     (Suc (lastTimerId w),
      w \<lparr> timers := (timers w)(Suc (lastTimerId w) \<mapsto> (ms, cb)),
          lastTimerId := Suc (lastTimerId w) \<rparr>)"

definition clearTimeout :: "nat \<Rightarrow> world \<Rightarrow> world" where
  "clearTimeout h w = w \<lparr> timers := (timers w)(h := None) \<rparr>"

subsection \<open>Admission\<close>

definition processEvent :: "event \<Rightarrow> hint \<Rightarrow> world \<Rightarrow> event option \<times> world" where
  "processEvent ev h w =
     (if isConsentReady w \<and> hasConsent w then
        (Some ev, logEvent ''Sentry event allowed'' w)
      else if isConsentReady w \<and> \<not> hasConsent w then
        (None, logEvent ''Event blocked'' w)
      else
        (None, (logEvent ''Sentry event queued'' w) \<lparr> eventQueue := eventQueue w @ [(ev, h)] \<rparr>))"

subsection \<open>Queue processing\<close>

text \<open>\<open>event.exception?.values?.[0]\<close>\<close>

definition firstException :: "event \<Rightarrow> exception_value option" where
  "firstException ev =
     (case exception_values ev of
        None \<Rightarrow> None
      | Some [] \<Rightarrow> None
      | Some (v # vs) \<Rightarrow> Some v)"

definition frameLine :: "frame \<Rightarrow> string" where
  "frameLine f =
     orElse (filename f) ''unknown'' @ '':''
       @ showNat (case lineno f of None \<Rightarrow> 0 | Some n \<Rightarrow> n)"

text \<open>
  The body of the \<open>try\<close> block for one queued event: the capture call it makes, if any.
  An exception thrown by the call is caught for that event alone and the loop goes on.
\<close>

definition recapture :: "bool \<Rightarrow> event \<Rightarrow> hint \<Rightarrow> capture_call option" where
  "recapture captureEvent ev h =
     (case firstException ev of
        Some v \<Rightarrow>
          Some (CaptureException (orElse (ex_value v) ''Queued error'')
                  (join [CHR 0x0A]
                     (map frameLine
                        (case stacktrace_frames v of None \<Rightarrow> [] | Some fs \<Rightarrow> fs))))
      | None \<Rightarrow>
          (if message ev \<noteq> None \<and> message ev \<noteq> Some [] then
             Some (CaptureMessage (orElse (message ev) ''Queued message'') (level ev))
           else if captureEvent then Some (CaptureEvent ev h)
           else None))"

text \<open>The \<open>for\<close> loop over the copied queue; \<open>this.hasConsent\<close> is read for each event.\<close>

fun resend :: "world \<Rightarrow> (event \<times> hint) list \<Rightarrow> world" where
  "resend w [] = w"
| "resend w ((ev, h) # queuedEvents) =
     resend
       (if hasConsent w then
          (case recapture (hasCaptureEvent w) ev h of
             None \<Rightarrow> w
           | Some c \<Rightarrow> w \<lparr> captured := captured w @ [c] \<rparr>)
        else w)
       queuedEvents"

text \<open>
  \<open>processQueuedEvents\<close> is \<open>async\<close> but awaits nothing: its whole body runs inside the
  call. The queue is copied and the live queue emptied before the loop.
\<close>

definition processQueuedEvents :: "world \<Rightarrow> world" where
  "processQueuedEvents w =
     (let queuedEvents = eventQueue w;
          w1 = w \<lparr> eventQueue := [] \<rparr>
      in resend w1 queuedEvents)"

definition clearEventQueue :: "world \<Rightarrow> world" where
  "clearEventQueue w = w \<lparr> eventQueue := [] \<rparr>"

subsection \<open>Configuration\<close>

definition captureOriginalScopeData :: "world \<Rightarrow> world" where
  "captureOriginalScopeData w =
     (case getScope w of
        None \<Rightarrow> w
      | Some scope \<Rightarrow>
          w \<lparr> originalScopeData :=
                \<lparr> sc_user = sc_user scope,
                  sc_tags = Some (case sc_tags scope of None \<Rightarrow> [] | Some ts \<Rightarrow> ts),
                  sc_contexts = Some (case sc_contexts scope of None \<Rightarrow> [] | Some cs \<Rightarrow> cs) \<rparr> \<rparr>)"

definition captureOriginalSentryConfig :: "world \<Rightarrow> world" where
  "captureOriginalSentryConfig w =
     (case getClient w of
        Some options \<Rightarrow>
          w \<lparr> originalSentryConfig :=
                [''sendDefaultPii'' \<mapsto> getProp options ''sendDefaultPii'',
                 ''maxBreadcrumbs'' \<mapsto> getProp options ''maxBreadcrumbs'',
                 ''attachStacktrace'' \<mapsto> getProp options ''attachStacktrace'',
                 ''sampleRate'' \<mapsto> getProp options ''sampleRate'',
                 ''tracesSampleRate'' \<mapsto> getProp options ''tracesSampleRate'',
                 ''beforeBreadcrumb'' \<mapsto> getProp options ''beforeBreadcrumb'',
                 ''beforeSend'' \<mapsto> getProp options ''beforeSend'',
                 ''beforeSendTransaction'' \<mapsto> getProp options ''beforeSendTransaction'',
                 ''replaysSessionSampleRate'' \<mapsto> getProp options ''replaysSessionSampleRate'',
                 ''replaysOnErrorSampleRate'' \<mapsto> getProp options ''replaysOnErrorSampleRate'',
                 ''profilesSampleRate'' \<mapsto> getProp options ''profilesSampleRate''] \<rparr>
      | None \<Rightarrow>
          w \<lparr> originalSentryConfig :=
                [''sendDefaultPii'' \<mapsto> JBool False,
                 ''maxBreadcrumbs'' \<mapsto> JNum 100,
                 ''attachStacktrace'' \<mapsto> JBool False,
                 ''sampleRate'' \<mapsto> JNum 1,
                 ''tracesSampleRate'' \<mapsto> JNum 0,
                 ''replaysSessionSampleRate'' \<mapsto> JNum 0,
                 ''replaysOnErrorSampleRate'' \<mapsto> JNum 0,
                 ''profilesSampleRate'' \<mapsto> JNum 0] \<rparr>)"

text \<open>\<open>!consentState.x\<close> holds when the field is false or undefined.\<close>

definition buildConsentBasedConfig :: "world \<Rightarrow> ConsentState \<Rightarrow> js_object" where
  "buildConsentBasedConfig w consentState =
     (let orig = originalSentryConfig w;
          config = Map.empty;
          config =
            (if functional consentState \<noteq> Some True then
               config(''enabled'' \<mapsto> JBool False,
                      ''sampleRate'' \<mapsto> JNum 0,
                      ''beforeSend'' \<mapsto> JFn (\<lambda>e. None))
             else
               config(''enabled'' \<mapsto> JBool True,
                      ''sampleRate'' \<mapsto> nullish (getProp orig ''sampleRate'') (JNum 1),
                      ''beforeSend'' \<mapsto> getProp orig ''beforeSend''));
          config =
            (if analytics consentState \<noteq> Some True then
               config(''maxBreadcrumbs'' \<mapsto> JNum 0,
                      ''attachStacktrace'' \<mapsto> JBool False,
                      ''tracesSampleRate'' \<mapsto> JNum 0,
                      ''profilesSampleRate'' \<mapsto> JNum 0,
                      ''beforeBreadcrumb'' \<mapsto> JFn (\<lambda>e. None),
                      ''beforeSendTransaction'' \<mapsto> JFn (\<lambda>e. None))
             else
               config(''maxBreadcrumbs'' \<mapsto> nullish (getProp orig ''maxBreadcrumbs'') (JNum 100),
                      ''attachStacktrace'' \<mapsto> nullish (getProp orig ''attachStacktrace'') (JBool False),
                      ''tracesSampleRate'' \<mapsto> nullish (getProp orig ''tracesSampleRate'') (JNum 0),
                      ''profilesSampleRate'' \<mapsto> nullish (getProp orig ''profilesSampleRate'') (JNum 0),
                      ''beforeBreadcrumb'' \<mapsto> getProp orig ''beforeBreadcrumb'',
                      ''beforeSendTransaction'' \<mapsto> getProp orig ''beforeSendTransaction''));
          config =
            (if preferences consentState \<noteq> Some True then
               config(''sendDefaultPii'' \<mapsto> JBool False,
                      ''replaysSessionSampleRate'' \<mapsto> JNum 0,
                      ''replaysOnErrorSampleRate'' \<mapsto> JNum 0)
             else
               config(''sendDefaultPii'' \<mapsto> nullish (getProp orig ''sendDefaultPii'') (JBool False),
                      ''replaysSessionSampleRate'' \<mapsto>
                         nullish (getProp orig ''replaysSessionSampleRate'') (JNum 0),
                      ''replaysOnErrorSampleRate'' \<mapsto>
                         nullish (getProp orig ''replaysOnErrorSampleRate'') (JNum 0)))
      in config)"

text \<open>
  \<open>updateSentryScope\<close>: the calls made on the scope, in order. Clearing sets every tag key
  captured at setup to undefined; restoring replays the captured user, tags and contexts.
\<close>

definition updateSentryScope :: "bool \<Rightarrow> world \<Rightarrow> world" where
  "updateSentryScope hasMarketingConsent w =
     (case getScope w of
        None \<Rightarrow> w
      | Some scope \<Rightarrow>
          (if \<not> hasMarketingConsent then
             w \<lparr> scopeCalls := scopeCalls w
                   @ [SetUser None]
                   @ (case sc_tags (originalScopeData w) of
                        None \<Rightarrow> []
                      | Some tags \<Rightarrow> map (\<lambda>(tagKey, v). SetTag tagKey None) tags)
                   @ [SetContext ''marketing'' None] \<rparr>
           else
             w \<lparr> scopeCalls := scopeCalls w
                   @ (case sc_user (originalScopeData w) of
                        None \<Rightarrow> []
                      | Some user \<Rightarrow> [SetUser (Some user)])
                   @ (case sc_tags (originalScopeData w) of
                        None \<Rightarrow> []
                      | Some tags \<Rightarrow> map (\<lambda>(key, v). SetTag key (Some v)) tags)
                   @ (case sc_contexts (originalScopeData w) of
                        None \<Rightarrow> []
                      | Some contexts \<Rightarrow> map (\<lambda>(key, v). SetContext key (Some v)) contexts) \<rparr>))"

definition applySentryConfiguration :: "ConsentState \<Rightarrow> world \<Rightarrow> world" where
  "applySentryConfiguration consentState w =
     (case getClient w of
        None \<Rightarrow> w
      | Some options \<Rightarrow>
          (let newConfig = buildConsentBasedConfig w consentState;
               w1 = w \<lparr> clientOptions := Some (Object_assign options newConfig) \<rparr>
           in (case marketing consentState of
                 None \<Rightarrow> w1
               | Some m \<Rightarrow> updateSentryScope m w1)))"

text \<open>\<open>updateIntegrationConfigs\<close> only writes a debug line.\<close>

definition updateIntegrationConfigs :: "ConsentState \<Rightarrow> world \<Rightarrow> world" where
  "updateIntegrationConfigs consentState w = w"

subsection \<open>Consent monitoring\<close>

text \<open>The guards \<open>if (this.warningTimeoutId)\<close> test truthiness: a handle other than 0.\<close>

definition clearWarningAndErrorTimeouts :: "world \<Rightarrow> world" where
  "clearWarningAndErrorTimeouts w =
     (let w1 = (case warningTimeoutId w of
                  None \<Rightarrow> w
                | Some h \<Rightarrow>
                    if h \<noteq> 0 then (clearTimeout h w) \<lparr> warningTimeoutId := None \<rparr> else w)
      in (case errorTimeoutId w1 of
            None \<Rightarrow> w1
          | Some h \<Rightarrow>
              if h \<noteq> 0 then (clearTimeout h w1) \<lparr> errorTimeoutId := None \<rparr> else w1))"

text \<open>The listener installed by \<open>listenForConsentChanges\<close>.\<close>

definition consentChanged :: "env \<Rightarrow> world \<Rightarrow> world" where
  "consentChanged e w =
     (let newConsentState = asConsentState (status e);
          currentConsent = st_functional (status e)
      in if currentConsent \<noteq> hasConsent w
            \<or> JSON_stringify newConsentState \<noteq> JSON_stringify (currentConsentState w)
         then
           (let w1 = logEvent ''Consent status changed'' w;
                w2 = w1 \<lparr> hasConsent := currentConsent, currentConsentState := newConsentState \<rparr>;
                w3 = updateIntegrationConfigs newConsentState
                       (applySentryConfiguration newConsentState w2)
            in if currentConsent then processQueuedEvents w3 else w3)
         else w)"

definition listenForConsentChanges :: "world \<Rightarrow> world" where
  "listenForConsentChanges w =
     w \<lparr> consentChangeListener := True,
         choicesUpdatedListeners := Suc (choicesUpdatedListeners w) \<rparr>"

definition checkConsent :: "env \<Rightarrow> world \<Rightarrow> world" where
  "checkConsent e w =
     (let currentConsentState' = asConsentState (status e);
          hasConsent' = st_functional (status e);
          w1 = w \<lparr> currentConsentState := currentConsentState',
                   isConsentReady := True, hasConsent := hasConsent' \<rparr>;
          w2 = updateIntegrationConfigs currentConsentState'
                 (applySentryConfiguration currentConsentState' w1);
          w3 = (if hasConsent' then processQueuedEvents (logEvent ''Consent granted'' w2)
                else clearEventQueue (logEvent ''Consent denied'' w2));
          w4 = listenForConsentChanges w3
      in clearWarningAndErrorTimeouts w4)"

text \<open>The listener for \<open>zarazConsentAPIReady\<close> installed while Zaraz is not ready.\<close>

definition handleZarazLoaded :: "env \<Rightarrow> world \<Rightarrow> world" where
  "handleZarazLoaded e w =
     (if apiReady e then
        clearWarningAndErrorTimeouts ((checkConsent e w) \<lparr> zarazLoadedListener := False \<rparr>)
      else w)"

text \<open>The bodies of the two delayed callbacks.\<close>

definition warningTimeout :: "world \<Rightarrow> world" where
  "warningTimeout w =
     logEvent ''Zaraz loading warning''
       (consoleOut ''[SentryZarazConsentIntegration] Warning: Zaraz consent API not loaded after 20 seconds'' w)"

definition errorTimeout :: "world \<Rightarrow> world" where
  "errorTimeout w =
     clearEventQueue
       ((logEvent ''Zaraz loading error''
           (consoleOut ''[SentryZarazConsentIntegration] Error: Zaraz consent API not loaded after 45 seconds'' w))
          \<lparr> isConsentReady := True, hasConsent := False \<rparr>)"

definition initializeConsentMonitoring :: "env \<Rightarrow> world \<Rightarrow> world" where
  "initializeConsentMonitoring e w =
     (if apiReady e then checkConsent e w
      else
        (let w1 = w \<lparr> zarazLoadedListener := True \<rparr>;
             (h1, w2) = setTimeout WarningTimeout 20000 w1;
             w3 = w2 \<lparr> warningTimeoutId := Some h1 \<rparr>;
             (h2, w4) = setTimeout ErrorTimeout 45000 w3
         in w4 \<lparr> errorTimeoutId := Some h2 \<rparr>))"

definition setupOnce :: "env \<Rightarrow> world \<Rightarrow> world" where
  "setupOnce e w =
     initializeConsentMonitoring e
       (captureOriginalScopeData (captureOriginalSentryConfig (w \<lparr> currentSentryHub := True \<rparr>)))"

definition cleanup :: "world \<Rightarrow> world" where
  "cleanup w =
     (let w1 = clearWarningAndErrorTimeouts w;
          w2 = (if consentChangeListener w1 then
                  w1 \<lparr> choicesUpdatedListeners := choicesUpdatedListeners w1 - 1,
                       consentChangeListener := False \<rparr>
                else w1)
      in clearEventQueue w2)"

subsection \<open>What can happen to an instance after setup\<close>

text \<open>
  Handlers run one at a time. Sentry hands an event to \<open>processEvent\<close>; the document
  dispatches one of the two Zaraz events to the listeners registered for it; the browser
  fires a timer that is still pending, once; the host calls \<open>cleanup\<close>.
\<close>

datatype trigger =
    Capture event hint
  | ZarazConsentAPIReady
  | ZarazConsentChoicesUpdated
  | TimerFires nat
  | Cleanup

definition fireTimer :: "nat \<Rightarrow> world \<Rightarrow> world" where
  "fireTimer h w =
     (case timers w h of
        None \<Rightarrow> w
      | Some (ms, cb) \<Rightarrow>
          (let w1 = w \<lparr> timers := (timers w)(h := None) \<rparr>
           in (case cb of WarningTimeout \<Rightarrow> warningTimeout w1 | ErrorTimeout \<Rightarrow> errorTimeout w1)))"

fun step :: "world \<Rightarrow> env \<times> trigger \<Rightarrow> world" where
  "step w (e, Capture ev h) = snd (processEvent ev h w)"
| "step w (e, ZarazConsentAPIReady) =
     (if zarazLoadedListener w then handleZarazLoaded e w else w)"
| "step w (e, ZarazConsentChoicesUpdated) =
     ((consentChanged e) ^^ (choicesUpdatedListeners w)) w"
| "step w (e, TimerFires h) = fireTimer h w"
| "step w (e, Cleanup) = cleanup w"

definition run :: "world \<Rightarrow> (env \<times> trigger) list \<Rightarrow> world" where
  "run w ts = foldl step w ts"

text \<open>The gating state the two flags encode.\<close>

datatype GatingState = NOT_READY | READY_GRANTED | READY_DENIED

definition gatingState :: "world \<Rightarrow> GatingState" where
  "gatingState w =
     (if \<not> isConsentReady w then NOT_READY
      else if hasConsent w then READY_GRANTED else READY_DENIED)"

subsection \<open>Notions used to state the properties\<close>

text \<open>The twelve option names that \<open>buildConsentBasedConfig\<close> writes.\<close>

definition gatedFields :: "string set" where
  "gatedFields = {''enabled'', ''sampleRate'', ''beforeSend'', ''maxBreadcrumbs'',
     ''attachStacktrace'', ''tracesSampleRate'', ''profilesSampleRate'', ''beforeBreadcrumb'',
     ''beforeSendTransaction'', ''sendDefaultPii'', ''replaysSessionSampleRate'',
     ''replaysOnErrorSampleRate''}"

text \<open>
  How often \<open>checkConsent\<close> has run: it is the only caller of \<open>logEvent\<close> with
  one of these two names, and makes exactly one such call.
\<close>

definition resolutions :: "world \<Rightarrow> nat" where
  "resolutions w =
     length (filter (\<lambda>name. name = ''Consent granted'' \<or> name = ''Consent denied'') (eventLog w))"

text \<open>
  Every pending timer is one of the two armed by this instance, under the handle the
  instance remembers for it.
\<close>

definition timersOwned :: "world \<Rightarrow> bool" where
  "timersOwned w =
     (\<forall>h ms cb. timers w h = Some (ms, cb) \<longrightarrow>
        h \<noteq> 0
        \<and> (cb = WarningTimeout \<longrightarrow> warningTimeoutId w = Some h)
        \<and> (cb = ErrorTimeout \<longrightarrow> errorTimeoutId w = Some h))"

text \<open>
  The invariant of an instance after \<open>setupOnce\<close>: while the one-shot readiness listener is
  registered no resolution has run and no change listener exists; once it is gone
  exactly one resolution has run, no timer is pending and \<open>hasConsent\<close> agrees with the
  cached snapshot.
\<close>

definition monitored :: "world \<Rightarrow> bool" where
  "monitored w =
     (timersOwned w
      \<and> (consentChangeListener w \<longrightarrow> choicesUpdatedListeners w = 1)
      \<and> (\<not> consentChangeListener w \<longrightarrow> choicesUpdatedListeners w = 0)
      \<and> (zarazLoadedListener w \<longrightarrow>
            \<not> consentChangeListener w \<and> resolutions w = 0 \<and> \<not> hasConsent w)
      \<and> (\<not> zarazLoadedListener w \<longrightarrow>
            timers w = Map.empty \<and> isConsentReady w
            \<and> hasConsent w = (functional (currentConsentState w) = Some True)
            \<and> resolutions w = 1))"

text \<open>
  An instance still waiting for Zaraz: not ready, the one-shot listener registered, no
  change listener, and the fallback timer pending under handle \<open>h\<close>.
\<close>

definition waiting :: "nat \<Rightarrow> world \<Rightarrow> bool" where
  "waiting h w =
     (\<not> isConsentReady w \<and> zarazLoadedListener w \<and> choicesUpdatedListeners w = 0
      \<and> timersOwned w \<and> errorTimeoutId w = Some h
      \<and> timers w h = Some (45000, ErrorTimeout))"

subsection \<open>Sample data for the worked instances\<close>

text \<open>
  A message event, an error event with two stack frames and an event that is neither;
  a window without Zaraz, one where Zaraz is ready and grants, the same with the keys of
  the snapshot written in another order, one where it is ready and denies; and the
  options of a host's client.
\<close>

definition ev1 :: event where
  "ev1 = \<lparr> event_id = Some ''e1'', event_type = None, level = Some ''info'',
           message = Some ''hello'', exception_values = None \<rparr>"

definition ev2 :: event where
  "ev2 = \<lparr> event_id = Some ''e2'', event_type = None, level = Some ''error'',
           message = None,
           exception_values = Some [\<lparr> ex_value = Some ''boom'',
             stacktrace_frames = Some [\<lparr> filename = Some ''a.js'', lineno = Some 12 \<rparr>,
                                       \<lparr> filename = None, lineno = None \<rparr>] \<rparr>] \<rparr>"

definition ev3 :: event where
  "ev3 = \<lparr> event_id = Some ''e3'', event_type = Some ''transaction'', level = None,
           message = None, exception_values = None \<rparr>"

definition env0 :: env where
  "env0 = \<lparr> win = \<lparr> zaraz = None \<rparr>,
            status = \<lparr> st_functional = False, st_analytics = False, st_marketing = False,
                       st_preferences = False, st_insertedAt = orderOf purposeKeys \<rparr> \<rparr>"

definition envGranted :: env where
  "envGranted =
     \<lparr> win = \<lparr> zaraz = Some \<lparr> consent = Some \<lparr> APIReady = Some True,
                 consent_get = (\<lambda>i. Some True) \<rparr> \<rparr> \<rparr>,
       status = \<lparr> st_functional = True, st_analytics = False, st_marketing = False,
                  st_preferences = False, st_insertedAt = orderOf purposeKeys \<rparr> \<rparr>"

definition envGrantedReordered :: env where
  "envGrantedReordered =
     \<lparr> win = \<lparr> zaraz = Some \<lparr> consent = Some \<lparr> APIReady = Some True,
                 consent_get = (\<lambda>i. Some True) \<rparr> \<rparr> \<rparr>,
       status = \<lparr> st_functional = True, st_analytics = False, st_marketing = False,
                  st_preferences = False,
                  st_insertedAt =
                    orderOf [''analytics'', ''functional'', ''marketing'', ''preferences''] \<rparr> \<rparr>"

definition hostOptions :: js_object where
  "hostOptions = [''dsn'' \<mapsto> JNull, ''sampleRate'' \<mapsto> JNum (1 / 2),
                  ''beforeSend'' \<mapsto> JFn (\<lambda>ev. Some ev), ''maxBreadcrumbs'' \<mapsto> JNum 50,
                  ''enabled'' \<mapsto> JBool True]"

definition envDenied :: env where
  "envDenied =
     \<lparr> win = \<lparr> zaraz = Some \<lparr> consent = Some \<lparr> APIReady = Some True,
                 consent_get = (\<lambda>i. None) \<rparr> \<rparr> \<rparr>,
       status = \<lparr> st_functional = False, st_analytics = False, st_marketing = False,
                  st_preferences = False, st_insertedAt = orderOf purposeKeys \<rparr> \<rparr>"

section \<open>Properties of the purpose resolver\<close>

lemma every_iff: "every p xs = (\<forall>x \<in> set xs. p x)"
  by (induction xs) auto

lemma every_stops: "\<not> p x \<Longrightarrow> every p (xs @ x # ys) = False"
  by (induction xs) auto

text \<open>
  Claim C3. A boolean entry resolves to itself whatever the window holds; an absent entry
  resolves to false; a list of identifiers resolves to false when the consent object is
  unavailable, and otherwise to true exactly when every identifier of the list reports
  granted (\<open>get\<close> returns \<open>true\<close>; \<open>false\<close> and \<open>undefined\<close> both deny).
\<close>

theorem checkZarazConsent_resolution:
  "checkZarazConsent w (Some (Fixed b)) = b
   \<and> checkZarazConsent w None = False
   \<and> (zarazConsent w = None \<longrightarrow> checkZarazConsent w (Some (Ids ids)) = False)
   \<and> (zarazConsent w = Some c \<longrightarrow>
        checkZarazConsent w (Some (Ids ids)) = (\<forall>i \<in> set ids. consent_get c i = Some True))"
  by (simp add: every_iff)

theorem checkZarazConsent_resolution_witness:
  "zarazConsent None = None
   \<and> checkZarazConsent None (Some (Fixed True)) = True
   \<and> checkZarazConsent None None = False
   \<and> checkZarazConsent None (Some (Ids [''a'', ''b''])) = False
   \<and> zarazConsent
        (Some \<lparr> zaraz = Some \<lparr> consent = Some \<lparr> APIReady = Some True,
            consent_get = (\<lambda>i. if i = ''a'' then Some True else None) \<rparr> \<rparr> \<rparr>)
       = Some \<lparr> APIReady = Some True,
            consent_get = (\<lambda>i. if i = ''a'' then Some True else None) \<rparr>
   \<and> checkZarazConsent
        (Some \<lparr> zaraz = Some \<lparr> consent = Some \<lparr> APIReady = Some True,
            consent_get = (\<lambda>i. if i = ''a'' then Some True else None) \<rparr> \<rparr> \<rparr>)
        (Some (Ids [''a'', ''b''])) = False
   \<and> checkZarazConsent
        (Some \<lparr> zaraz = Some \<lparr> consent = Some \<lparr> APIReady = Some True,
            consent_get = (\<lambda>i. if i = ''a'' then Some True else None) \<rparr> \<rparr> \<rparr>)
        (Some (Ids [''a''])) = True"
  using checkZarazConsent_resolution
    [of None True "[''a'', ''b'']"
        "\<lparr> APIReady = Some True, consent_get = (\<lambda>i. if i = ''a'' then Some True else None) \<rparr>"]
    checkZarazConsent_resolution
    [of "Some \<lparr> zaraz = Some \<lparr> consent = Some \<lparr> APIReady = Some True,
            consent_get = (\<lambda>i. if i = ''a'' then Some True else None) \<rparr> \<rparr> \<rparr>"
        True "[''a'', ''b'']"
        "\<lparr> APIReady = Some True, consent_get = (\<lambda>i. if i = ''a'' then Some True else None) \<rparr>"]
    checkZarazConsent_resolution
    [of "Some \<lparr> zaraz = Some \<lparr> consent = Some \<lparr> APIReady = Some True,
            consent_get = (\<lambda>i. if i = ''a'' then Some True else None) \<rparr> \<rparr> \<rparr>"
        True "[''a'']"
        "\<lparr> APIReady = Some True, consent_get = (\<lambda>i. if i = ''a'' then Some True else None) \<rparr>"]
  by (simp add: zarazConsent_def)



section \<open>Which fields each method touches\<close>

lemma logEvent_fields [simp]:
  "isConsentReady (logEvent n w) = isConsentReady w"
  "hasConsent (logEvent n w) = hasConsent w"
  "eventQueue (logEvent n w) = eventQueue w"
  "consentChangeListener (logEvent n w) = consentChangeListener w"
  "currentConsentState (logEvent n w) = currentConsentState w"
  "warningTimeoutId (logEvent n w) = warningTimeoutId w"
  "errorTimeoutId (logEvent n w) = errorTimeoutId w"
  "originalSentryConfig (logEvent n w) = originalSentryConfig w"
  "timers (logEvent n w) = timers w"
  "zarazLoadedListener (logEvent n w) = zarazLoadedListener w"
  "choicesUpdatedListeners (logEvent n w) = choicesUpdatedListeners w"
  "captured (logEvent n w) = captured w"
  "hasCaptureEvent (logEvent n w) = hasCaptureEvent w"
  "eventLog (logEvent n w) = eventLog w @ [n]"
  by (simp_all add: logEvent_def)

lemma consoleOut_fields [simp]:
  "isConsentReady (consoleOut n w) = isConsentReady w"
  "hasConsent (consoleOut n w) = hasConsent w"
  "eventQueue (consoleOut n w) = eventQueue w"
  "consentChangeListener (consoleOut n w) = consentChangeListener w"
  "currentConsentState (consoleOut n w) = currentConsentState w"
  "warningTimeoutId (consoleOut n w) = warningTimeoutId w"
  "errorTimeoutId (consoleOut n w) = errorTimeoutId w"
  "originalSentryConfig (consoleOut n w) = originalSentryConfig w"
  "timers (consoleOut n w) = timers w"
  "zarazLoadedListener (consoleOut n w) = zarazLoadedListener w"
  "choicesUpdatedListeners (consoleOut n w) = choicesUpdatedListeners w"
  "captured (consoleOut n w) = captured w"
  "hasCaptureEvent (consoleOut n w) = hasCaptureEvent w"
  "eventLog (consoleOut n w) = eventLog w"
  by (simp_all add: consoleOut_def)

lemma applySentryConfiguration_fields [simp]:
  "isConsentReady (applySentryConfiguration cs w) = isConsentReady w"
  "hasConsent (applySentryConfiguration cs w) = hasConsent w"
  "eventQueue (applySentryConfiguration cs w) = eventQueue w"
  "consentChangeListener (applySentryConfiguration cs w) = consentChangeListener w"
  "currentConsentState (applySentryConfiguration cs w) = currentConsentState w"
  "warningTimeoutId (applySentryConfiguration cs w) = warningTimeoutId w"
  "errorTimeoutId (applySentryConfiguration cs w) = errorTimeoutId w"
  "originalSentryConfig (applySentryConfiguration cs w) = originalSentryConfig w"
  "timers (applySentryConfiguration cs w) = timers w"
  "zarazLoadedListener (applySentryConfiguration cs w) = zarazLoadedListener w"
  "choicesUpdatedListeners (applySentryConfiguration cs w) = choicesUpdatedListeners w"
  "captured (applySentryConfiguration cs w) = captured w"
  "hasCaptureEvent (applySentryConfiguration cs w) = hasCaptureEvent w"
  "eventLog (applySentryConfiguration cs w) = eventLog w"
  by (simp_all add: applySentryConfiguration_def updateSentryScope_def Let_def
        split: option.splits)

lemma resend_fields [simp]:
  "isConsentReady (resend w q) = isConsentReady w"
  "hasConsent (resend w q) = hasConsent w"
  "eventQueue (resend w q) = eventQueue w"
  "consentChangeListener (resend w q) = consentChangeListener w"
  "currentConsentState (resend w q) = currentConsentState w"
  "warningTimeoutId (resend w q) = warningTimeoutId w"
  "errorTimeoutId (resend w q) = errorTimeoutId w"
  "originalSentryConfig (resend w q) = originalSentryConfig w"
  "timers (resend w q) = timers w"
  "zarazLoadedListener (resend w q) = zarazLoadedListener w"
  "choicesUpdatedListeners (resend w q) = choicesUpdatedListeners w"
  "hasCaptureEvent (resend w q) = hasCaptureEvent w"
  "eventLog (resend w q) = eventLog w"
  by (induction w q rule: resend.induct; simp split: option.splits)+

lemma processQueuedEvents_fields [simp]:
  "isConsentReady (processQueuedEvents w) = isConsentReady w"
  "hasConsent (processQueuedEvents w) = hasConsent w"
  "eventQueue (processQueuedEvents w) = []"
  "consentChangeListener (processQueuedEvents w) = consentChangeListener w"
  "currentConsentState (processQueuedEvents w) = currentConsentState w"
  "warningTimeoutId (processQueuedEvents w) = warningTimeoutId w"
  "errorTimeoutId (processQueuedEvents w) = errorTimeoutId w"
  "originalSentryConfig (processQueuedEvents w) = originalSentryConfig w"
  "timers (processQueuedEvents w) = timers w"
  "zarazLoadedListener (processQueuedEvents w) = zarazLoadedListener w"
  "choicesUpdatedListeners (processQueuedEvents w) = choicesUpdatedListeners w"
  "hasCaptureEvent (processQueuedEvents w) = hasCaptureEvent w"
  "eventLog (processQueuedEvents w) = eventLog w"
  by (simp_all add: processQueuedEvents_def Let_def)

lemma clearEventQueue_fields [simp]:
  "isConsentReady (clearEventQueue w) = isConsentReady w"
  "hasConsent (clearEventQueue w) = hasConsent w"
  "eventQueue (clearEventQueue w) = []"
  "consentChangeListener (clearEventQueue w) = consentChangeListener w"
  "currentConsentState (clearEventQueue w) = currentConsentState w"
  "warningTimeoutId (clearEventQueue w) = warningTimeoutId w"
  "errorTimeoutId (clearEventQueue w) = errorTimeoutId w"
  "originalSentryConfig (clearEventQueue w) = originalSentryConfig w"
  "timers (clearEventQueue w) = timers w"
  "zarazLoadedListener (clearEventQueue w) = zarazLoadedListener w"
  "choicesUpdatedListeners (clearEventQueue w) = choicesUpdatedListeners w"
  "captured (clearEventQueue w) = captured w"
  "hasCaptureEvent (clearEventQueue w) = hasCaptureEvent w"
  "eventLog (clearEventQueue w) = eventLog w"
  by (simp_all add: clearEventQueue_def)

lemma clearWarningAndErrorTimeouts_fields [simp]:
  "isConsentReady (clearWarningAndErrorTimeouts w) = isConsentReady w"
  "hasConsent (clearWarningAndErrorTimeouts w) = hasConsent w"
  "eventQueue (clearWarningAndErrorTimeouts w) = eventQueue w"
  "consentChangeListener (clearWarningAndErrorTimeouts w) = consentChangeListener w"
  "currentConsentState (clearWarningAndErrorTimeouts w) = currentConsentState w"
  "originalSentryConfig (clearWarningAndErrorTimeouts w) = originalSentryConfig w"
  "zarazLoadedListener (clearWarningAndErrorTimeouts w) = zarazLoadedListener w"
  "choicesUpdatedListeners (clearWarningAndErrorTimeouts w) = choicesUpdatedListeners w"
  "captured (clearWarningAndErrorTimeouts w) = captured w"
  "hasCaptureEvent (clearWarningAndErrorTimeouts w) = hasCaptureEvent w"
  "eventLog (clearWarningAndErrorTimeouts w) = eventLog w"
  by (simp_all add: clearWarningAndErrorTimeouts_def clearTimeout_def Let_def
        split: option.splits)

lemma clearWarningAndErrorTimeouts_timers:
  "timers (clearWarningAndErrorTimeouts w) h =
     (if h \<noteq> 0 \<and> (warningTimeoutId w = Some h \<or> errorTimeoutId w = Some h) then None
      else timers w h)"
  by (auto simp: clearWarningAndErrorTimeouts_def clearTimeout_def Let_def
        split: option.splits)

lemma clearWarningAndErrorTimeouts_ids:
  "warningTimeoutId (clearWarningAndErrorTimeouts w) =
     (case warningTimeoutId w of None \<Rightarrow> None | Some h \<Rightarrow> if h \<noteq> 0 then None else Some h)"
  "errorTimeoutId (clearWarningAndErrorTimeouts w) =
     (case errorTimeoutId w of None \<Rightarrow> None | Some h \<Rightarrow> if h \<noteq> 0 then None else Some h)"
  by (simp_all add: clearWarningAndErrorTimeouts_def clearTimeout_def Let_def
        split: option.splits)

lemma timersOwned_clear:
  "timersOwned w \<Longrightarrow> timers (clearWarningAndErrorTimeouts w) = Map.empty"
proof (rule ext)
  fix h
  assume own: "timersOwned w"
  show "timers (clearWarningAndErrorTimeouts w) h = None"
  proof (cases "timers w h")
    case None
    then show ?thesis by (simp add: clearWarningAndErrorTimeouts_timers)
  next
    case (Some p)
    obtain ms cb where p: "p = (ms, cb)" by (cases p)
    from own Some p have "h \<noteq> 0"
      and "cb = WarningTimeout \<longrightarrow> warningTimeoutId w = Some h"
      and "cb = ErrorTimeout \<longrightarrow> errorTimeoutId w = Some h"
      unfolding timersOwned_def by blast+
    then show ?thesis
      by (cases cb) (simp_all add: clearWarningAndErrorTimeouts_timers)
  qed
qed

lemma timers_empty_clear:
  "timers w = Map.empty \<Longrightarrow> timers (clearWarningAndErrorTimeouts w) = Map.empty"
  by (rule ext) (simp add: clearWarningAndErrorTimeouts_timers)

lemma timersOwned_empty: "timers w = Map.empty \<Longrightarrow> timersOwned w"
  by (simp add: timersOwned_def)

lemma resend_captured:
  "captured (resend w q) =
     captured w @ (if hasConsent w
                   then List.map_filter (\<lambda>(ev, h). recapture (hasCaptureEvent w) ev h) q
                   else [])"
  by (induction w q rule: resend.induct)
     (simp_all add: List.map_filter_simps split: option.splits)

lemma checkConsent_fields [simp]:
  "isConsentReady (checkConsent e w) = True"
  "hasConsent (checkConsent e w) = st_functional (status e)"
  "eventQueue (checkConsent e w) = []"
  "consentChangeListener (checkConsent e w) = True"
  "currentConsentState (checkConsent e w) = asConsentState (status e)"
  "originalSentryConfig (checkConsent e w) = originalSentryConfig w"
  "zarazLoadedListener (checkConsent e w) = zarazLoadedListener w"
  "choicesUpdatedListeners (checkConsent e w) = Suc (choicesUpdatedListeners w)"
  "hasCaptureEvent (checkConsent e w) = hasCaptureEvent w"
  "eventLog (checkConsent e w) =
     eventLog w @ [if st_functional (status e) then ''Consent granted'' else ''Consent denied'']"
  by (simp_all add: checkConsent_def Let_def updateIntegrationConfigs_def
        listenForConsentChanges_def)

lemma checkConsent_timers:
  "timers (checkConsent e w) h =
     (if h \<noteq> 0 \<and> (warningTimeoutId w = Some h \<or> errorTimeoutId w = Some h) then None
      else timers w h)"
  by (simp add: checkConsent_def Let_def updateIntegrationConfigs_def
        listenForConsentChanges_def clearWarningAndErrorTimeouts_timers)

lemma checkConsent_ids:
  "warningTimeoutId (checkConsent e w) =
     (case warningTimeoutId w of None \<Rightarrow> None | Some h \<Rightarrow> if h \<noteq> 0 then None else Some h)"
  "errorTimeoutId (checkConsent e w) =
     (case errorTimeoutId w of None \<Rightarrow> None | Some h \<Rightarrow> if h \<noteq> 0 then None else Some h)"
  by (simp_all add: checkConsent_def Let_def updateIntegrationConfigs_def
        listenForConsentChanges_def clearWarningAndErrorTimeouts_ids)

lemma checkConsent_captured:
  "captured (checkConsent e w) =
     captured w @ (if st_functional (status e)
                   then List.map_filter (\<lambda>(ev, h). recapture (hasCaptureEvent w) ev h)
                          (eventQueue w)
                   else [])"
  by (simp add: checkConsent_def Let_def updateIntegrationConfigs_def
        listenForConsentChanges_def processQueuedEvents_def resend_captured)

lemma consentChanged_fields [simp]:
  "isConsentReady (consentChanged e w) = isConsentReady w"
  "consentChangeListener (consentChanged e w) = consentChangeListener w"
  "warningTimeoutId (consentChanged e w) = warningTimeoutId w"
  "errorTimeoutId (consentChanged e w) = errorTimeoutId w"
  "originalSentryConfig (consentChanged e w) = originalSentryConfig w"
  "timers (consentChanged e w) = timers w"
  "zarazLoadedListener (consentChanged e w) = zarazLoadedListener w"
  "choicesUpdatedListeners (consentChanged e w) = choicesUpdatedListeners w"
  "hasCaptureEvent (consentChanged e w) = hasCaptureEvent w"
  by (simp_all add: consentChanged_def Let_def updateIntegrationConfigs_def)

lemma consentChanged_resolutions [simp]:
  "resolutions (consentChanged e w) = resolutions w"
  by (simp add: consentChanged_def Let_def updateIntegrationConfigs_def resolutions_def)

lemma consentChanged_sync:
  "hasConsent w = (functional (currentConsentState w) = Some True)
   \<Longrightarrow> hasConsent (consentChanged e w)
        = (functional (currentConsentState (consentChanged e w)) = Some True)"
  by (simp add: consentChanged_def Let_def updateIntegrationConfigs_def asConsentState_def)



lemma processEvent_fields [simp]:
  "isConsentReady (snd (processEvent ev h w)) = isConsentReady w"
  "hasConsent (snd (processEvent ev h w)) = hasConsent w"
  "consentChangeListener (snd (processEvent ev h w)) = consentChangeListener w"
  "currentConsentState (snd (processEvent ev h w)) = currentConsentState w"
  "warningTimeoutId (snd (processEvent ev h w)) = warningTimeoutId w"
  "errorTimeoutId (snd (processEvent ev h w)) = errorTimeoutId w"
  "originalSentryConfig (snd (processEvent ev h w)) = originalSentryConfig w"
  "timers (snd (processEvent ev h w)) = timers w"
  "zarazLoadedListener (snd (processEvent ev h w)) = zarazLoadedListener w"
  "choicesUpdatedListeners (snd (processEvent ev h w)) = choicesUpdatedListeners w"
  "captured (snd (processEvent ev h w)) = captured w"
  "hasCaptureEvent (snd (processEvent ev h w)) = hasCaptureEvent w"
  by (simp_all add: processEvent_def)

lemma processEvent_resolutions [simp]:
  "resolutions (snd (processEvent ev h w)) = resolutions w"
  by (simp add: processEvent_def resolutions_def)

lemma cleanup_fields [simp]:
  "isConsentReady (cleanup w) = isConsentReady w"
  "hasConsent (cleanup w) = hasConsent w"
  "eventQueue (cleanup w) = []"
  "consentChangeListener (cleanup w) = False"
  "currentConsentState (cleanup w) = currentConsentState w"
  "originalSentryConfig (cleanup w) = originalSentryConfig w"
  "zarazLoadedListener (cleanup w) = zarazLoadedListener w"
  "choicesUpdatedListeners (cleanup w)
     = (if consentChangeListener w then choicesUpdatedListeners w - 1
        else choicesUpdatedListeners w)"
  "captured (cleanup w) = captured w"
  "hasCaptureEvent (cleanup w) = hasCaptureEvent w"
  "eventLog (cleanup w) = eventLog w"
  by (simp_all add: cleanup_def Let_def)

lemma cleanup_timers:
  "timers (cleanup w) = timers (clearWarningAndErrorTimeouts w)"
  by (simp add: cleanup_def Let_def clearEventQueue_def)

lemma timersOwned_cleanup: "timersOwned w \<Longrightarrow> timers (cleanup w) = Map.empty"
  by (simp add: cleanup_timers timersOwned_clear)

lemma errorTimeout_fields [simp]:
  "isConsentReady (errorTimeout w) = True"
  "hasConsent (errorTimeout w) = False"
  "eventQueue (errorTimeout w) = []"
  "consentChangeListener (errorTimeout w) = consentChangeListener w"
  "currentConsentState (errorTimeout w) = currentConsentState w"
  "warningTimeoutId (errorTimeout w) = warningTimeoutId w"
  "errorTimeoutId (errorTimeout w) = errorTimeoutId w"
  "originalSentryConfig (errorTimeout w) = originalSentryConfig w"
  "timers (errorTimeout w) = timers w"
  "zarazLoadedListener (errorTimeout w) = zarazLoadedListener w"
  "choicesUpdatedListeners (errorTimeout w) = choicesUpdatedListeners w"
  "captured (errorTimeout w) = captured w"
  "hasCaptureEvent (errorTimeout w) = hasCaptureEvent w"
  "eventLog (errorTimeout w) = eventLog w @ [''Zaraz loading error'']"
  by (simp_all add: errorTimeout_def)

lemma warningTimeout_fields [simp]:
  "isConsentReady (warningTimeout w) = isConsentReady w"
  "hasConsent (warningTimeout w) = hasConsent w"
  "eventQueue (warningTimeout w) = eventQueue w"
  "consentChangeListener (warningTimeout w) = consentChangeListener w"
  "currentConsentState (warningTimeout w) = currentConsentState w"
  "warningTimeoutId (warningTimeout w) = warningTimeoutId w"
  "errorTimeoutId (warningTimeout w) = errorTimeoutId w"
  "originalSentryConfig (warningTimeout w) = originalSentryConfig w"
  "timers (warningTimeout w) = timers w"
  "zarazLoadedListener (warningTimeout w) = zarazLoadedListener w"
  "choicesUpdatedListeners (warningTimeout w) = choicesUpdatedListeners w"
  "captured (warningTimeout w) = captured w"
  "hasCaptureEvent (warningTimeout w) = hasCaptureEvent w"
  "eventLog (warningTimeout w) = eventLog w @ [''Zaraz loading warning'']"
  by (simp_all add: warningTimeout_def)

lemma fireTimer_none: "timers w h = None \<Longrightarrow> fireTimer h w = w"
  by (simp add: fireTimer_def)

lemma fireTimer_error:
  "timers w h = Some (ms, ErrorTimeout)
   \<Longrightarrow> fireTimer h w = errorTimeout (w \<lparr> timers := (timers w)(h := None) \<rparr>)"
  by (simp add: fireTimer_def)

lemma fireTimer_warning:
  "timers w h = Some (ms, WarningTimeout)
   \<Longrightarrow> fireTimer h w = warningTimeout (w \<lparr> timers := (timers w)(h := None) \<rparr>)"
  by (simp add: fireTimer_def)

lemma fireTimer_cases:
  obtains (idle) "timers w h = None" "fireTimer h w = w"
  | (warning) ms where "timers w h = Some (ms, WarningTimeout)"
      "fireTimer h w = warningTimeout (w \<lparr> timers := (timers w)(h := None) \<rparr>)"
  | (error) ms where "timers w h = Some (ms, ErrorTimeout)"
      "fireTimer h w = errorTimeout (w \<lparr> timers := (timers w)(h := None) \<rparr>)"
proof (cases "timers w h")
  case None
  then show ?thesis using idle fireTimer_none by blast
next
  case (Some p)
  obtain ms cb where "p = (ms, cb)" by (cases p)
  with Some show ?thesis
    using warning error fireTimer_warning fireTimer_error by (cases cb) blast+
qed

lemma monitored_capture: "monitored w \<Longrightarrow> monitored (snd (processEvent ev h w))"
  by (simp add: monitored_def timersOwned_def)

lemma monitored_checkConsent:
  assumes own: "timersOwned w" and cnt: "choicesUpdatedListeners w = 0"
    and res: "resolutions w = 0"
  shows "monitored ((checkConsent e w) \<lparr> zarazLoadedListener := False \<rparr>)"
proof -
  have t: "timers (checkConsent e w) = Map.empty"
  proof (rule ext)
    fix h
    have "timers (clearWarningAndErrorTimeouts w) h = None"
      using timersOwned_clear [OF own] by simp
    then show "timers (checkConsent e w) h = None"
      by (simp add: checkConsent_timers clearWarningAndErrorTimeouts_timers)
  qed
  have r: "resolutions ((checkConsent e w) \<lparr> zarazLoadedListener := False \<rparr>) = 1"
    using res by (simp add: resolutions_def)
  show ?thesis
    unfolding monitored_def
    using t r cnt by (simp add: timersOwned_def asConsentState_def)
qed

section \<open>The invariant of a monitored instance\<close>

lemma resolutions_same: "eventLog w' = eventLog w \<Longrightarrow> resolutions w' = resolutions w"
  by (simp add: resolutions_def)

lemma monitoredD:
  assumes "monitored w"
  shows "timersOwned w"
    and "consentChangeListener w \<longrightarrow> choicesUpdatedListeners w = 1"
    and "\<not> consentChangeListener w \<longrightarrow> choicesUpdatedListeners w = 0"
    and "zarazLoadedListener w \<longrightarrow> \<not> consentChangeListener w"
    and "zarazLoadedListener w \<longrightarrow> resolutions w = 0"
    and "\<not> zarazLoadedListener w \<longrightarrow> timers w = Map.empty"
    and "\<not> zarazLoadedListener w \<longrightarrow> isConsentReady w"
    and "\<not> zarazLoadedListener w
         \<longrightarrow> hasConsent w = (functional (currentConsentState w) = Some True)"
    and "\<not> zarazLoadedListener w \<longrightarrow> resolutions w = 1"
    and "zarazLoadedListener w \<longrightarrow> \<not> hasConsent w"
  using assms unfolding monitored_def by blast+

lemma monitoredI:
  assumes "timersOwned w"
    and "consentChangeListener w \<longrightarrow> choicesUpdatedListeners w = 1"
    and "\<not> consentChangeListener w \<longrightarrow> choicesUpdatedListeners w = 0"
    and "zarazLoadedListener w \<longrightarrow> \<not> consentChangeListener w"
    and "zarazLoadedListener w \<longrightarrow> resolutions w = 0"
    and "\<not> zarazLoadedListener w \<longrightarrow> timers w = Map.empty"
    and "\<not> zarazLoadedListener w \<longrightarrow> isConsentReady w"
    and "\<not> zarazLoadedListener w
         \<longrightarrow> hasConsent w = (functional (currentConsentState w) = Some True)"
    and "\<not> zarazLoadedListener w \<longrightarrow> resolutions w = 1"
    and "zarazLoadedListener w \<longrightarrow> \<not> hasConsent w"
  shows "monitored w"
  using assms unfolding monitored_def by blast

lemma monitored_timers_gone:
  assumes m: "monitored w"
    and t: "timers w' = Map.empty"
    and f: "choicesUpdatedListeners w' = choicesUpdatedListeners w"
      "consentChangeListener w' = consentChangeListener w"
      "zarazLoadedListener w' = zarazLoadedListener w"
      "isConsentReady w' = isConsentReady w"
      "hasConsent w' = hasConsent w"
      "currentConsentState w' = currentConsentState w"
      "eventLog w' = eventLog w"
  shows "monitored w'"
proof -
  have own: "timersOwned w'" using t by (rule timersOwned_empty)
  have r: "resolutions w' = resolutions w" using f(7) by (rule resolutions_same)
  show ?thesis
    apply (rule monitoredI)
    unfolding f r
    using own t monitoredD [OF m] by blast+
qed

lemma monitored_clear: "monitored w \<Longrightarrow> monitored (clearWarningAndErrorTimeouts w)"
proof -
  assume m: "monitored w"
  then have "timersOwned w" by (rule monitoredD(1))
  then have t: "timers (clearWarningAndErrorTimeouts w) = Map.empty" by (rule timersOwned_clear)
  show ?thesis
    by (rule monitored_timers_gone [OF m t]) simp_all
qed

lemma monitored_cleanup:
  assumes m: "monitored w"
  shows "monitored (cleanup w)"
proof (rule monitoredI)
  have t: "timers (cleanup w) = Map.empty"
    using monitoredD(1) [OF m] by (rule timersOwned_cleanup)
  then show "timersOwned (cleanup w)" by (rule timersOwned_empty)
  show "\<not> zarazLoadedListener (cleanup w) \<longrightarrow> timers (cleanup w) = Map.empty"
    using t by blast
  show "consentChangeListener (cleanup w) \<longrightarrow> choicesUpdatedListeners (cleanup w) = 1"
    by simp
  show "\<not> consentChangeListener (cleanup w) \<longrightarrow> choicesUpdatedListeners (cleanup w) = 0"
    using monitoredD(2,3) [OF m] by (cases "consentChangeListener w") simp_all
  show "zarazLoadedListener (cleanup w) \<longrightarrow> \<not> consentChangeListener (cleanup w)"
    by simp
  show "zarazLoadedListener (cleanup w) \<longrightarrow> resolutions (cleanup w) = 0"
    using monitoredD(5) [OF m] by (simp add: resolutions_def)
  show "\<not> zarazLoadedListener (cleanup w) \<longrightarrow> isConsentReady (cleanup w)"
    using monitoredD(7) [OF m] by simp
  show "\<not> zarazLoadedListener (cleanup w) \<longrightarrow>
        hasConsent (cleanup w) = (functional (currentConsentState (cleanup w)) = Some True)"
    using monitoredD(8) [OF m] by simp
  show "\<not> zarazLoadedListener (cleanup w) \<longrightarrow> resolutions (cleanup w) = 1"
    using monitoredD(9) [OF m] by (simp add: resolutions_def)
  show "zarazLoadedListener (cleanup w) \<longrightarrow> \<not> hasConsent (cleanup w)"
    using monitoredD(10) [OF m] by simp
qed

lemma monitored_ready:
  assumes m: "monitored w"
  shows "monitored (if zarazLoadedListener w then handleZarazLoaded e w else w)"
proof (cases "zarazLoadedListener w \<and> apiReady e")
  case True
  then have z: "zarazLoadedListener w" by blast
  have "timersOwned w" by (rule monitoredD(1) [OF m])
  moreover have "choicesUpdatedListeners w = 0" using monitoredD(3,4) [OF m] z by blast
  moreover have "resolutions w = 0" using monitoredD(5) [OF m] z by blast
  ultimately have "monitored ((checkConsent e w) \<lparr> zarazLoadedListener := False \<rparr>)"
    by (rule monitored_checkConsent)
  then have "monitored (clearWarningAndErrorTimeouts
                ((checkConsent e w) \<lparr> zarazLoadedListener := False \<rparr>))"
    by (rule monitored_clear)
  with True show ?thesis by (simp add: handleZarazLoaded_def)
next
  case False
  then have "(if zarazLoadedListener w then handleZarazLoaded e w else w) = w"
    by (simp add: handleZarazLoaded_def)
  with m show ?thesis by simp
qed

lemma monitored_consentChanged:
  assumes m: "monitored w" and l: "consentChangeListener w"
  shows "monitored (consentChanged e w)"
proof (rule monitoredI)
  from l have z: "\<not> zarazLoadedListener w" using monitoredD(4) [OF m] by blast
  show "timersOwned (consentChanged e w)"
    using monitoredD(1) [OF m] by (simp add: timersOwned_def)
  show "consentChangeListener (consentChanged e w)
          \<longrightarrow> choicesUpdatedListeners (consentChanged e w) = 1"
    using monitoredD(2) [OF m] by simp
  show "\<not> consentChangeListener (consentChanged e w)
          \<longrightarrow> choicesUpdatedListeners (consentChanged e w) = 0"
    using l by simp
  show "zarazLoadedListener (consentChanged e w)
          \<longrightarrow> \<not> consentChangeListener (consentChanged e w)"
    using z by simp
  show "zarazLoadedListener (consentChanged e w) \<longrightarrow> resolutions (consentChanged e w) = 0"
    using z by simp
  show "\<not> zarazLoadedListener (consentChanged e w)
          \<longrightarrow> timers (consentChanged e w) = Map.empty"
    using monitoredD(6) [OF m] by simp
  show "\<not> zarazLoadedListener (consentChanged e w) \<longrightarrow> isConsentReady (consentChanged e w)"
    using monitoredD(7) [OF m] by simp
  show "\<not> zarazLoadedListener (consentChanged e w) \<longrightarrow>
        hasConsent (consentChanged e w)
          = (functional (currentConsentState (consentChanged e w)) = Some True)"
    using monitoredD(8) [OF m] z consentChanged_sync [of w e] by blast
  show "\<not> zarazLoadedListener (consentChanged e w) \<longrightarrow> resolutions (consentChanged e w) = 1"
    using monitoredD(9) [OF m] by simp
  show "zarazLoadedListener (consentChanged e w) \<longrightarrow> \<not> hasConsent (consentChanged e w)"
    using z by simp
qed

lemma monitored_choices:
  assumes m: "monitored w"
  shows "monitored (((consentChanged e) ^^ (choicesUpdatedListeners w)) w)"
proof (cases "consentChangeListener w")
  case True
  then have "choicesUpdatedListeners w = 1" using monitoredD(2) [OF m] by blast
  then have "((consentChanged e) ^^ (choicesUpdatedListeners w)) w = consentChanged e w"
    by simp
  then show ?thesis using monitored_consentChanged [OF m True] by simp
next
  case False
  then have "choicesUpdatedListeners w = 0" using monitoredD(3) [OF m] by blast
  then have "((consentChanged e) ^^ (choicesUpdatedListeners w)) w = w" by simp
  then show ?thesis using m by simp
qed

lemma timersOwned_fired:
  "timersOwned w \<Longrightarrow> timersOwned (w \<lparr> timers := (timers w)(h := None) \<rparr>)"
  by (simp add: timersOwned_def)

lemma monitored_timer_body:
  assumes m: "monitored w" and p: "timers w h \<noteq> None"
    and f: "timers w' = (timers w)(h := None)"
      "warningTimeoutId w' = warningTimeoutId w"
      "errorTimeoutId w' = errorTimeoutId w"
      "consentChangeListener w' = consentChangeListener w"
      "choicesUpdatedListeners w' = choicesUpdatedListeners w"
      "zarazLoadedListener w' = zarazLoadedListener w"
      "resolutions w' = resolutions w"
      "hasConsent w' \<longrightarrow> hasConsent w"
  shows "monitored w'"
proof (rule monitoredI)
  from p have z: "zarazLoadedListener w" using monitoredD(6) [OF m] by fastforce
  show "timersOwned w'"
    using monitoredD(1) [OF m] by (simp add: timersOwned_def f)
  show "consentChangeListener w' \<longrightarrow> choicesUpdatedListeners w' = 1"
    using monitoredD(2) [OF m] by (simp add: f)
  show "\<not> consentChangeListener w' \<longrightarrow> choicesUpdatedListeners w' = 0"
    using monitoredD(3) [OF m] by (simp add: f)
  show "zarazLoadedListener w' \<longrightarrow> \<not> consentChangeListener w'"
    using monitoredD(4) [OF m] by (simp add: f)
  show "zarazLoadedListener w' \<longrightarrow> resolutions w' = 0"
    using monitoredD(5) [OF m] by (simp add: f)
  show "\<not> zarazLoadedListener w' \<longrightarrow> timers w' = Map.empty"
    using z by (simp add: f)
  show "\<not> zarazLoadedListener w' \<longrightarrow> isConsentReady w'"
    using z by (simp add: f)
  show "\<not> zarazLoadedListener w' \<longrightarrow>
        hasConsent w' = (functional (currentConsentState w') = Some True)"
    using z by (simp add: f)
  show "\<not> zarazLoadedListener w' \<longrightarrow> resolutions w' = 1"
    using z by (simp add: f)
  show "zarazLoadedListener w' \<longrightarrow> \<not> hasConsent w'"
    using monitoredD(10) [OF m] z f(8) by blast
qed

lemma monitored_fireTimer:
  assumes m: "monitored w"
  shows "monitored (fireTimer h w)"
proof (cases rule: fireTimer_cases [of w h])
  case idle
  with m show ?thesis by simp
next
  case (warning ms)
  from warning(1) have p: "timers w h \<noteq> None" by simp
  show ?thesis
    by (rule monitored_timer_body [OF m p]) (simp_all add: warning(2) resolutions_def)
next
  case (error ms)
  from error(1) have p: "timers w h \<noteq> None" by simp
  show ?thesis
    by (rule monitored_timer_body [OF m p]) (simp_all add: error(2) resolutions_def)
qed

lemma monitored_step: "monitored w \<Longrightarrow> monitored (step w x)"
proof -
  assume m: "monitored w"
  obtain e t where x: "x = (e, t)" by (cases x)
  show ?thesis
  proof (cases t)
    case (Capture ev h)
    then show ?thesis using monitored_capture [OF m] by (simp add: x)
  next
    case ZarazConsentAPIReady
    then show ?thesis using monitored_ready [OF m] by (simp add: x)
  next
    case ZarazConsentChoicesUpdated
    then show ?thesis using monitored_choices [OF m] by (simp add: x del: funpow.simps)
  next
    case (TimerFires h)
    then show ?thesis using monitored_fireTimer [OF m] by (simp add: x)
  next
    case Cleanup
    then show ?thesis using monitored_cleanup [OF m] by (simp add: x)
  qed
qed

lemma monitored_run: "monitored w \<Longrightarrow> monitored (run w ts)"
  unfolding run_def by (induction ts arbitrary: w) (simp_all add: monitored_step)

section \<open>Setup\<close>

lemma captureOriginalSentryConfig_fields [simp]:
  "isConsentReady (captureOriginalSentryConfig w) = isConsentReady w"
  "hasConsent (captureOriginalSentryConfig w) = hasConsent w"
  "eventQueue (captureOriginalSentryConfig w) = eventQueue w"
  "consentChangeListener (captureOriginalSentryConfig w) = consentChangeListener w"
  "currentConsentState (captureOriginalSentryConfig w) = currentConsentState w"
  "warningTimeoutId (captureOriginalSentryConfig w) = warningTimeoutId w"
  "errorTimeoutId (captureOriginalSentryConfig w) = errorTimeoutId w"
  "timers (captureOriginalSentryConfig w) = timers w"
  "lastTimerId (captureOriginalSentryConfig w) = lastTimerId w"
  "zarazLoadedListener (captureOriginalSentryConfig w) = zarazLoadedListener w"
  "choicesUpdatedListeners (captureOriginalSentryConfig w) = choicesUpdatedListeners w"
  "captured (captureOriginalSentryConfig w) = captured w"
  "hasCaptureEvent (captureOriginalSentryConfig w) = hasCaptureEvent w"
  "eventLog (captureOriginalSentryConfig w) = eventLog w"
  "currentSentryHub (captureOriginalSentryConfig w) = currentSentryHub w"
  "clientOptions (captureOriginalSentryConfig w) = clientOptions w"
  by (simp_all add: captureOriginalSentryConfig_def split: option.splits)

lemma captureOriginalScopeData_fields [simp]:
  "isConsentReady (captureOriginalScopeData w) = isConsentReady w"
  "hasConsent (captureOriginalScopeData w) = hasConsent w"
  "eventQueue (captureOriginalScopeData w) = eventQueue w"
  "consentChangeListener (captureOriginalScopeData w) = consentChangeListener w"
  "currentConsentState (captureOriginalScopeData w) = currentConsentState w"
  "warningTimeoutId (captureOriginalScopeData w) = warningTimeoutId w"
  "errorTimeoutId (captureOriginalScopeData w) = errorTimeoutId w"
  "originalSentryConfig (captureOriginalScopeData w) = originalSentryConfig w"
  "timers (captureOriginalScopeData w) = timers w"
  "lastTimerId (captureOriginalScopeData w) = lastTimerId w"
  "zarazLoadedListener (captureOriginalScopeData w) = zarazLoadedListener w"
  "choicesUpdatedListeners (captureOriginalScopeData w) = choicesUpdatedListeners w"
  "captured (captureOriginalScopeData w) = captured w"
  "hasCaptureEvent (captureOriginalScopeData w) = hasCaptureEvent w"
  "eventLog (captureOriginalScopeData w) = eventLog w"
  "currentSentryHub (captureOriginalScopeData w) = currentSentryHub w"
  "clientOptions (captureOriginalScopeData w) = clientOptions w"
  by (simp_all add: captureOriginalScopeData_def split: option.splits)

text \<open>The instance between the two captures of \<open>setupOnce\<close> and the start of monitoring.\<close>

lemma initializeConsentMonitoring_ready:
  "apiReady e \<Longrightarrow> initializeConsentMonitoring e w = checkConsent e w"
  by (simp add: initializeConsentMonitoring_def)

lemma initializeConsentMonitoring_waiting:
  assumes "\<not> apiReady e"
  shows "isConsentReady (initializeConsentMonitoring e w) = isConsentReady w"
    and "hasConsent (initializeConsentMonitoring e w) = hasConsent w"
    and "eventQueue (initializeConsentMonitoring e w) = eventQueue w"
    and "consentChangeListener (initializeConsentMonitoring e w) = consentChangeListener w"
    and "currentConsentState (initializeConsentMonitoring e w) = currentConsentState w"
    and "originalSentryConfig (initializeConsentMonitoring e w) = originalSentryConfig w"
    and "choicesUpdatedListeners (initializeConsentMonitoring e w) = choicesUpdatedListeners w"
    and "captured (initializeConsentMonitoring e w) = captured w"
    and "hasCaptureEvent (initializeConsentMonitoring e w) = hasCaptureEvent w"
    and "eventLog (initializeConsentMonitoring e w) = eventLog w"
    and "zarazLoadedListener (initializeConsentMonitoring e w) = True"
    and "warningTimeoutId (initializeConsentMonitoring e w) = Some (Suc (lastTimerId w))"
    and "errorTimeoutId (initializeConsentMonitoring e w) = Some (Suc (Suc (lastTimerId w)))"
    and "timers (initializeConsentMonitoring e w) =
           (timers w)(Suc (lastTimerId w) \<mapsto> (20000, WarningTimeout),
                      Suc (Suc (lastTimerId w)) \<mapsto> (45000, ErrorTimeout))"
  using assms by (simp_all add: initializeConsentMonitoring_def setTimeout_def Let_def)

lemma construct_fields [simp]:
  "isConsentReady (construct opts sc ce l) = False"
  "hasConsent (construct opts sc ce l) = False"
  "eventQueue (construct opts sc ce l) = []"
  "consentChangeListener (construct opts sc ce l) = False"
  "warningTimeoutId (construct opts sc ce l) = None"
  "errorTimeoutId (construct opts sc ce l) = None"
  "timers (construct opts sc ce l) = Map.empty"
  "lastTimerId (construct opts sc ce l) = l"
  "zarazLoadedListener (construct opts sc ce l) = False"
  "choicesUpdatedListeners (construct opts sc ce l) = 0"
  "captured (construct opts sc ce l) = []"
  "hasCaptureEvent (construct opts sc ce l) = ce"
  "eventLog (construct opts sc ce l) = []"
  "clientOptions (construct opts sc ce l) = opts"
  by (simp_all add: construct_def)

lemma update_same_listener:
  "zarazLoadedListener w = b \<Longrightarrow> w \<lparr> zarazLoadedListener := b \<rparr> = w"
  by (cases w) auto

lemma monitored_setupOnce: "monitored (setupOnce e (construct opts sc ce l))"
proof (cases "apiReady e")
  case True
  define w1 where
    "w1 = captureOriginalScopeData
            (captureOriginalSentryConfig ((construct opts sc ce l) \<lparr> currentSentryHub := True \<rparr>))"
  have s: "setupOnce e (construct opts sc ce l) = checkConsent e w1"
    using True by (simp add: setupOnce_def w1_def initializeConsentMonitoring_ready)
  have "timers w1 = Map.empty" by (simp add: w1_def)
  then have own: "timersOwned w1" by (rule timersOwned_empty)
  have c: "choicesUpdatedListeners w1 = 0" by (simp add: w1_def)
  have r: "resolutions w1 = 0" by (simp add: w1_def resolutions_def)
  have z: "zarazLoadedListener (checkConsent e w1) = False" by (simp add: w1_def)
  have "monitored ((checkConsent e w1) \<lparr> zarazLoadedListener := False \<rparr>)"
    using own c r by (rule monitored_checkConsent)
  then show ?thesis
    unfolding s update_same_listener [OF z] .
next
  case False
  define w1 where
    "w1 = captureOriginalScopeData
            (captureOriginalSentryConfig ((construct opts sc ce l) \<lparr> currentSentryHub := True \<rparr>))"
  have s: "setupOnce e (construct opts sc ce l) = initializeConsentMonitoring e w1"
    by (simp add: setupOnce_def w1_def)
  note f = initializeConsentMonitoring_waiting [OF False, of w1]
  have t: "timers w1 = Map.empty" and l: "lastTimerId w1 = l"
    and g: "eventLog w1 = []" "\<not> consentChangeListener w1" "choicesUpdatedListeners w1 = 0"
      "\<not> hasConsent w1"
    by (simp_all add: w1_def)
  show ?thesis
    unfolding s
  proof (rule monitoredI)
    show "timersOwned (initializeConsentMonitoring e w1)"
      by (auto simp: timersOwned_def f t split: if_splits)
  qed (simp_all add: f g resolutions_def)
qed

section \<open>Admission\<close>

lemma run_Nil [simp]: "run w [] = w"
  by (simp add: run_def)

lemma run_Cons [simp]: "run w (x # xs) = run (step w x) xs"
  by (simp add: run_def)

lemma run_append: "run w (xs @ ys) = run (run w xs) ys"
  by (simp add: run_def)

lemma capture_run_queue:
  "\<not> isConsentReady w \<Longrightarrow>
   eventQueue (run w (map (\<lambda>(e, ev, h). (e, Capture ev h)) xs)) = eventQueue w @ map snd xs"
proof (induction xs arbitrary: w)
  case Nil
  then show ?case by simp
next
  case (Cons x xs)
  obtain e ev h where x: "x = (e, ev, h)" by (cases x)
  have q: "eventQueue (snd (processEvent ev h w)) = eventQueue w @ [(ev, h)]"
    using Cons.prems by (simp add: processEvent_def)
  have "\<not> isConsentReady (snd (processEvent ev h w))" using Cons.prems by simp
  from Cons.IH [OF this] show ?case by (simp add: x q)
qed

text \<open>
  Claim C1. The decision of \<open>processEvent\<close> depends on the gating state alone. While
  readiness is undetermined the event and its hint are appended to the queue and the hook
  returns null; a sequence of captures is queued in arrival order. Once readiness is
  determined the hook returns the event itself when functional consent is granted and
  null when it is denied, and the queue is left as it was. The gating state is unchanged
  by the call.
\<close>

theorem processEvent_admission:
  "(gatingState w = NOT_READY \<longrightarrow>
      fst (processEvent ev h w) = None
      \<and> eventQueue (snd (processEvent ev h w)) = eventQueue w @ [(ev, h)])
   \<and> (gatingState w = READY_GRANTED \<longrightarrow>
      fst (processEvent ev h w) = Some ev
      \<and> eventQueue (snd (processEvent ev h w)) = eventQueue w)
   \<and> (gatingState w = READY_DENIED \<longrightarrow>
      fst (processEvent ev h w) = None
      \<and> eventQueue (snd (processEvent ev h w)) = eventQueue w)
   \<and> gatingState (snd (processEvent ev h w)) = gatingState w
   \<and> (gatingState w' = gatingState w \<longrightarrow>
        fst (processEvent ev h w') = fst (processEvent ev h w))
   \<and> (gatingState w = NOT_READY \<longrightarrow>
        eventQueue (run w (map (\<lambda>(e, ev, h). (e, Capture ev h)) xs))
          = eventQueue w @ map snd xs)"
proof -
  have "gatingState w = NOT_READY \<longrightarrow>
        eventQueue (run w (map (\<lambda>(e, ev, h). (e, Capture ev h)) xs))
          = eventQueue w @ map snd xs"
    using capture_run_queue [of w xs] by (simp add: gatingState_def split: if_splits)
  then show ?thesis
    by (simp add: processEvent_def gatingState_def logEvent_def split: if_splits)
qed

theorem processEvent_admission_witness:
  "gatingState (construct None None True 0) = NOT_READY
   \<and> fst (processEvent ev1 ''h'' (construct None None True 0)) = None
   \<and> eventQueue (snd (processEvent ev1 ''h'' (construct None None True 0))) = [(ev1, ''h'')]
   \<and> eventQueue (run (construct None None True 0)
        [(env0, Capture ev1 ''h1''), (env0, Capture ev2 ''h2'')]) = [(ev1, ''h1''), (ev2, ''h2'')]
   \<and> gatingState ((construct None None True 0) \<lparr> isConsentReady := True, hasConsent := True \<rparr>)
       = READY_GRANTED
   \<and> fst (processEvent ev1 ''h''
        ((construct None None True 0) \<lparr> isConsentReady := True, hasConsent := True \<rparr>)) = Some ev1
   \<and> gatingState ((construct None None True 0) \<lparr> isConsentReady := True \<rparr>) = READY_DENIED
   \<and> fst (processEvent ev1 ''h''
        ((construct None None True 0) \<lparr> isConsentReady := True \<rparr>)) = None
   \<and> eventQueue (snd (processEvent ev1 ''h''
        ((construct None None True 0) \<lparr> isConsentReady := True \<rparr>))) = []"
  using processEvent_admission [of "construct None None True 0" ev1 "''h''"
          "construct None None True 0" "[(env0, ev1, ''h1''), (env0, ev2, ''h2'')]"]
    processEvent_admission [of
          "(construct None None True 0) \<lparr> isConsentReady := True, hasConsent := True \<rparr>" ev1 "''h''"
          "construct None None True 0" "[]"]
    processEvent_admission [of
          "(construct None None True 0) \<lparr> isConsentReady := True \<rparr>" ev1 "''h''"
          "construct None None True 0" "[]"]
  by (simp add: gatingState_def)

section \<open>Queue processing at the first resolution\<close>

lemma recapture_some: "recapture True ev h \<noteq> None"
  by (simp add: recapture_def split: option.splits)

lemma map_filter_all_some:
  "(\<And>x. x \<in> set xs \<Longrightarrow> f x \<noteq> None) \<Longrightarrow> map Some (List.map_filter f xs) = map f xs"
  by (induction xs) (auto simp: List.map_filter_simps split: option.splits)

text \<open>
  Claim C2. \<open>checkConsent\<close> leaves the queue empty. When the functional purpose
  resolves true, the capture calls it adds are exactly those of the queued events, in
  arrival order, taken from the queue as it was before it was cleared; where the Sentry
  module offers \<open>captureEvent\<close> that is one call for every queued event. When the
  functional purpose resolves false no capture call is made.
\<close>

theorem checkConsent_queue:
  "eventQueue (checkConsent e w) = []
   \<and> (st_functional (status e) \<longrightarrow>
        captured (checkConsent e w)
          = captured w
            @ List.map_filter (\<lambda>(ev, h). recapture (hasCaptureEvent w) ev h) (eventQueue w))
   \<and> (st_functional (status e) \<and> hasCaptureEvent w \<longrightarrow>
        (\<exists>calls. captured (checkConsent e w) = captured w @ calls
           \<and> map Some calls = map (\<lambda>(ev, h). recapture True ev h) (eventQueue w)))
   \<and> (\<not> st_functional (status e) \<longrightarrow> captured (checkConsent e w) = captured w)"
proof -
  have "map Some (List.map_filter (\<lambda>(ev, h). recapture True ev h) (eventQueue w))
          = map (\<lambda>(ev, h). recapture True ev h) (eventQueue w)"
    by (rule map_filter_all_some) (use recapture_some in auto)
  then show ?thesis
    by (auto simp: checkConsent_captured)
qed

theorem checkConsent_queue_witness:
  "st_functional (status envGranted)
   \<and> hasCaptureEvent (run (construct None None True 0)
        [(env0, Capture ev1 ''h1''), (env0, Capture ev2 ''h2''), (env0, Capture ev3 ''h3'')])
   \<and> eventQueue (run (construct None None True 0)
        [(env0, Capture ev1 ''h1''), (env0, Capture ev2 ''h2''), (env0, Capture ev3 ''h3'')])
       = [(ev1, ''h1''), (ev2, ''h2''), (ev3, ''h3'')]
   \<and> captured (checkConsent envGranted (run (construct None None True 0)
        [(env0, Capture ev1 ''h1''), (env0, Capture ev2 ''h2''), (env0, Capture ev3 ''h3'')]))
       = [CaptureMessage ''hello'' (Some ''info''),
          CaptureException ''boom'' (''a.js:12'' @ [CHR 0x0A] @ ''unknown:0''),
          CaptureEvent ev3 ''h3'']
   \<and> eventQueue (checkConsent envGranted (run (construct None None True 0)
        [(env0, Capture ev1 ''h1''), (env0, Capture ev2 ''h2''), (env0, Capture ev3 ''h3'')])) = []
   \<and> \<not> st_functional (status env0)
   \<and> captured (checkConsent env0 (run (construct None None True 0)
        [(env0, Capture ev1 ''h1''), (env0, Capture ev2 ''h2''), (env0, Capture ev3 ''h3'')])) = []
   \<and> eventQueue (checkConsent env0 (run (construct None None True 0)
        [(env0, Capture ev1 ''h1''), (env0, Capture ev2 ''h2''), (env0, Capture ev3 ''h3'')])) = []"
  using checkConsent_queue [of envGranted "run (construct None None True 0)
        [(env0, Capture ev1 ''h1''), (env0, Capture ev2 ''h2''), (env0, Capture ev3 ''h3'')]"]
    checkConsent_queue [of env0 "run (construct None None True 0)
        [(env0, Capture ev1 ''h1''), (env0, Capture ev2 ''h2''), (env0, Capture ev3 ''h3'')]"]
  by (simp add: envGranted_def env0_def processEvent_def logEvent_def
        List.map_filter_simps recapture_def firstException_def ev1_def ev2_def ev3_def
        orElse_def frameLine_def showNat.simps digitChar_def)

section \<open>Configuration patches\<close>

lemma consentChanged_funpow_originalSentryConfig:
  "originalSentryConfig (((consentChanged e) ^^ n) w) = originalSentryConfig w"
  by (induction n) simp_all

lemma fireTimer_originalSentryConfig [simp]:
  "originalSentryConfig (fireTimer h w) = originalSentryConfig w"
  by (cases rule: fireTimer_cases [of w h]) simp_all

lemma step_originalSentryConfig: "originalSentryConfig (step w x) = originalSentryConfig w"
proof -
  obtain e t where x: "x = (e, t)" by (cases x)
  show ?thesis
    unfolding x
    by (cases t)
       (simp_all add: handleZarazLoaded_def consentChanged_funpow_originalSentryConfig
          del: funpow.simps)
qed

lemma run_originalSentryConfig: "originalSentryConfig (run w ts) = originalSentryConfig w"
  by (induction ts arbitrary: w) (simp_all add: step_originalSentryConfig)

lemma setupOnce_originalSentryConfig:
  "originalSentryConfig (setupOnce e w)
     = originalSentryConfig (captureOriginalSentryConfig (w \<lparr> currentSentryHub := True \<rparr>))"
  by (cases "apiReady e")
     (simp_all add: setupOnce_def initializeConsentMonitoring_ready
        initializeConsentMonitoring_waiting)

lemma baseline_of_client:
  "originalSentryConfig
     (run (setupOnce e0 (construct (Some options) sc ce l)) ts) ''sampleRate''
     = Some (getProp options ''sampleRate'')"
  "originalSentryConfig
     (run (setupOnce e0 (construct (Some options) sc ce l)) ts) ''beforeSend''
     = Some (getProp options ''beforeSend'')"
  by (simp_all add: run_originalSentryConfig setupOnce_originalSentryConfig
        captureOriginalSentryConfig_def getClient_def)

text \<open>
  Claim C5. Without functional consent the patch disables the client, sets the sample
  rate to zero and installs a \<open>beforeSend\<close> that returns null for every event. With
  functional consent it enables the client and restores the sample rate (1.0 when the
  baseline holds none) and the \<open>beforeSend\<close> hook of the baseline; after \<open>setupOnce\<close>
  on a hub with a client, and whatever happened since, these are the values the client's
  options had at setup.
\<close>

theorem functional_config_patch:
  "(functional cs \<noteq> Some True \<longrightarrow>
      buildConsentBasedConfig w cs ''enabled'' = Some (JBool False)
      \<and> buildConsentBasedConfig w cs ''sampleRate'' = Some (JNum 0)
      \<and> (\<exists>f. buildConsentBasedConfig w cs ''beforeSend'' = Some (JFn f) \<and> (\<forall>ev. f ev = None)))
   \<and> (functional cs = Some True \<longrightarrow>
      buildConsentBasedConfig w cs ''enabled'' = Some (JBool True)
      \<and> buildConsentBasedConfig w cs ''sampleRate''
          = Some (nullish (getProp (originalSentryConfig w) ''sampleRate'') (JNum 1))
      \<and> buildConsentBasedConfig w cs ''beforeSend''
          = Some (getProp (originalSentryConfig w) ''beforeSend''))
   \<and> (functional cs = Some True \<longrightarrow>
      buildConsentBasedConfig
          (run (setupOnce e0 (construct (Some options) sc ce l)) ts) cs ''sampleRate''
        = Some (nullish (getProp options ''sampleRate'') (JNum 1))
      \<and> buildConsentBasedConfig
          (run (setupOnce e0 (construct (Some options) sc ce l)) ts) cs ''beforeSend''
        = Some (getProp options ''beforeSend''))"
proof -
  have "getProp (originalSentryConfig
          (run (setupOnce e0 (construct (Some options) sc ce l)) ts)) ''sampleRate''
        = getProp options ''sampleRate''"
    and "getProp (originalSentryConfig
          (run (setupOnce e0 (construct (Some options) sc ce l)) ts)) ''beforeSend''
        = getProp options ''beforeSend''"
    by (simp_all add: getProp_def [of "originalSentryConfig _"] baseline_of_client)
  then show ?thesis
    by (simp add: buildConsentBasedConfig_def Let_def)
qed

theorem functional_config_patch_witness:
  "functional (asConsentState (status env0)) \<noteq> Some True
   \<and> buildConsentBasedConfig (setupOnce env0 (construct (Some hostOptions) None True 0))
        (asConsentState (status env0)) ''enabled'' = Some (JBool False)
   \<and> buildConsentBasedConfig (setupOnce env0 (construct (Some hostOptions) None True 0))
        (asConsentState (status env0)) ''sampleRate'' = Some (JNum 0)
   \<and> functional (asConsentState (status envGranted)) = Some True
   \<and> buildConsentBasedConfig (setupOnce env0 (construct (Some hostOptions) None True 0))
        (asConsentState (status envGranted)) ''enabled'' = Some (JBool True)
   \<and> buildConsentBasedConfig (setupOnce env0 (construct (Some hostOptions) None True 0))
        (asConsentState (status envGranted)) ''sampleRate'' = Some (JNum (1 / 2))
   \<and> buildConsentBasedConfig (setupOnce env0 (construct (Some hostOptions) None True 0))
        (asConsentState (status envGranted)) ''beforeSend'' = Some (JFn (\<lambda>ev. Some ev))
   \<and> buildConsentBasedConfig (setupOnce env0 (construct None None True 0))
        (asConsentState (status envGranted)) ''sampleRate'' = Some (JNum 1)"
  using functional_config_patch
      [of "asConsentState (status env0)" "setupOnce env0 (construct (Some hostOptions) None True 0)"
          env0 hostOptions None True 0 "[]"]
    functional_config_patch
      [of "asConsentState (status envGranted)"
          "setupOnce env0 (construct (Some hostOptions) None True 0)"
          env0 hostOptions None True 0 "[]"]
    functional_config_patch
      [of "asConsentState (status envGranted)"
          "setupOnce env0 (construct None None True 0)"
          env0 hostOptions None True 0 "[]"]
  by (simp add: asConsentState_def env0_def envGranted_def hostOptions_def getProp_def
        nullish_def setupOnce_originalSentryConfig captureOriginalSentryConfig_def getClient_def)

lemma dom_buildConsentBasedConfig: "dom (buildConsentBasedConfig w cs) = gatedFields"
  unfolding buildConsentBasedConfig_def gatedFields_def Let_def
  by (simp only: dom_fun_upd dom_empty if_distrib [of dom] option.simps if_False if_cancel
        split: if_splits) auto

lemma updateSentryScope_clientOptions [simp]:
  "clientOptions (updateSentryScope m w) = clientOptions w"
  by (simp add: updateSentryScope_def split: option.splits)

lemma applySentryConfiguration_clientOptions:
  "getClient w = Some options \<Longrightarrow>
   clientOptions (applySentryConfiguration cs w)
     = Some (options ++ buildConsentBasedConfig w cs)"
  by (cases "marketing cs")
     (simp_all add: applySentryConfiguration_def Let_def Object_assign_def)

lemma map_add_inside: "n k = Some v \<Longrightarrow> (m ++ n) k = n k \<and> (m ++ n) k \<noteq> None"
  by (simp add: map_add_def)

lemma map_add_outside: "k \<notin> dom n \<Longrightarrow> (m ++ n) k = m k"
  by (simp add: map_add_def domIff split: option.splits)

text \<open>
  Claim C6. The keys of every patch are exactly the twelve gated fields, and applying
  the patch to a client writes each of them with the patch's value, whatever the options
  held before; all other options are left alone.
\<close>

theorem config_patch_is_full:
  "dom (buildConsentBasedConfig w cs) = gatedFields
   \<and> (getClient w = Some options \<longrightarrow>
        (\<exists>options'. clientOptions (applySentryConfiguration cs w) = Some options'
           \<and> (\<forall>k \<in> gatedFields.
                 options' k = buildConsentBasedConfig w cs k \<and> options' k \<noteq> None)
           \<and> (\<forall>k. k \<notin> gatedFields \<longrightarrow> options' k = options k)))"
proof (intro conjI impI)
  show d: "dom (buildConsentBasedConfig w cs) = gatedFields"
    by (rule dom_buildConsentBasedConfig)
  assume g: "getClient w = Some options"
  have c: "clientOptions (applySentryConfiguration cs w)
          = Some (options ++ buildConsentBasedConfig w cs)"
    using g by (rule applySentryConfiguration_clientOptions)
  have inside: "(options ++ buildConsentBasedConfig w cs) k = buildConsentBasedConfig w cs k
                \<and> (options ++ buildConsentBasedConfig w cs) k \<noteq> None"
    if "k \<in> gatedFields" for k
  proof -
    from that have "k \<in> dom (buildConsentBasedConfig w cs)" unfolding d .
    then obtain v where "buildConsentBasedConfig w cs k = Some v" by blast
    then show ?thesis by (rule map_add_inside)
  qed
  have outside: "(options ++ buildConsentBasedConfig w cs) k = options k"
    if "k \<notin> gatedFields" for k
  proof -
    from that have "k \<notin> dom (buildConsentBasedConfig w cs)" unfolding d .
    then show ?thesis by (rule map_add_outside)
  qed
  show "\<exists>options'. clientOptions (applySentryConfiguration cs w) = Some options'
           \<and> (\<forall>k \<in> gatedFields.
                 options' k = buildConsentBasedConfig w cs k \<and> options' k \<noteq> None)
           \<and> (\<forall>k. k \<notin> gatedFields \<longrightarrow> options' k = options k)"
  proof (rule exI [of _ "options ++ buildConsentBasedConfig w cs"], intro conjI)
    show "clientOptions (applySentryConfiguration cs w)
            = Some (options ++ buildConsentBasedConfig w cs)" by (rule c)
    show "\<forall>k \<in> gatedFields.
            (options ++ buildConsentBasedConfig w cs) k = buildConsentBasedConfig w cs k
            \<and> (options ++ buildConsentBasedConfig w cs) k \<noteq> None"
      by (intro ballI) (rule inside)
    show "\<forall>k. k \<notin> gatedFields
            \<longrightarrow> (options ++ buildConsentBasedConfig w cs) k = options k"
      by (intro allI impI) (rule outside)
  qed
qed

theorem config_patch_is_full_witness:
  "getClient ((construct (Some hostOptions) None True 0) \<lparr> currentSentryHub := True \<rparr>)
     = Some hostOptions
   \<and> ''beforeSend'' \<in> gatedFields
   \<and> ''dsn'' \<notin> gatedFields
   \<and> (\<exists>options'.
        clientOptions (applySentryConfiguration (asConsentState (status env0))
          ((construct (Some hostOptions) None True 0) \<lparr> currentSentryHub := True \<rparr>))
          = Some options'
        \<and> options' ''beforeSend''
            = buildConsentBasedConfig
                ((construct (Some hostOptions) None True 0) \<lparr> currentSentryHub := True \<rparr>)
                (asConsentState (status env0)) ''beforeSend''
        \<and> options' ''beforeSend'' \<noteq> None
        \<and> options' ''dsn'' = Some JNull)"
proof -
  have g: "getClient ((construct (Some hostOptions) None True 0) \<lparr> currentSentryHub := True \<rparr>)
             = Some hostOptions"
    by (simp add: getClient_def)
  have b: "''beforeSend'' \<in> gatedFields" and n: "''dsn'' \<notin> gatedFields"
    by (simp_all add: gatedFields_def)
  have h: "hostOptions ''dsn'' = Some JNull" by (simp add: hostOptions_def)
  from config_patch_is_full
      [of "(construct (Some hostOptions) None True 0) \<lparr> currentSentryHub := True \<rparr>"
          "asConsentState (status env0)" hostOptions] g
  obtain options' where
    "clientOptions (applySentryConfiguration (asConsentState (status env0))
          ((construct (Some hostOptions) None True 0) \<lparr> currentSentryHub := True \<rparr>))
          = Some options'"
    and "\<forall>k \<in> gatedFields.
           options' k = buildConsentBasedConfig
                ((construct (Some hostOptions) None True 0) \<lparr> currentSentryHub := True \<rparr>)
                (asConsentState (status env0)) k \<and> options' k \<noteq> None"
    and "\<forall>k. k \<notin> gatedFields \<longrightarrow> options' k = hostOptions k"
    by blast
  with g b n h show ?thesis by metis
qed

section \<open>Change notifications\<close>

lemma monitored_reachable:
  "monitored (run (setupOnce e0 (construct opts sc ce l)) ts)"
  by (rule monitored_run) (rule monitored_setupOnce)


section \<open>The fallback timeout\<close>

lemma timersOwned_same:
  "timers w' = timers w \<Longrightarrow> warningTimeoutId w' = warningTimeoutId w
   \<Longrightarrow> errorTimeoutId w' = errorTimeoutId w \<Longrightarrow> timersOwned w' = timersOwned w"
  by (simp add: timersOwned_def)

lemma waiting_setupOnce:
  "\<not> apiReady e \<Longrightarrow> waiting (Suc (Suc l)) (setupOnce e (construct opts sc ce l))"
proof -
  assume n: "\<not> apiReady e"
  define w1 where
    "w1 = captureOriginalScopeData
            (captureOriginalSentryConfig ((construct opts sc ce l) \<lparr> currentSentryHub := True \<rparr>))"
  have s: "setupOnce e (construct opts sc ce l) = initializeConsentMonitoring e w1"
    by (simp add: setupOnce_def w1_def)
  note f = initializeConsentMonitoring_waiting [OF n, of w1]
  have g: "timers w1 = Map.empty" "lastTimerId w1 = l" "\<not> isConsentReady w1"
    "choicesUpdatedListeners w1 = 0"
    by (simp_all add: w1_def)
  have "timersOwned (initializeConsentMonitoring e w1)"
    by (auto simp: timersOwned_def f g split: if_splits)
  then show ?thesis
    unfolding s waiting_def by (simp add: f g)
qed

lemma waiting_step:
  assumes w: "waiting h w"
    and x: "t \<noteq> Cleanup" "t \<noteq> TimerFires h" "t = ZarazConsentAPIReady \<longrightarrow> \<not> apiReady e"
  shows "waiting h (step w (e, t))"
proof (cases t)
  case (Capture ev hint)
  have "timersOwned (snd (processEvent ev hint w)) = timersOwned w"
    by (rule timersOwned_same) simp_all
  with w show ?thesis by (simp add: Capture waiting_def)
next
  case ZarazConsentAPIReady
  with x(3) have "step w (e, t) = w" by (simp add: handleZarazLoaded_def)
  with w show ?thesis by simp
next
  case ZarazConsentChoicesUpdated
  with w have "step w (e, t) = w" by (simp add: waiting_def)
  with w show ?thesis by simp
next
  case (TimerFires h')
  with x(2) have ne: "h' \<noteq> h" by blast
  show ?thesis
  proof (cases rule: fireTimer_cases [of w h'])
    case idle
    with w TimerFires show ?thesis by simp
  next
    case (warning ms)
    from w have "timersOwned w" by (simp add: waiting_def)
    then have "timersOwned (w \<lparr> timers := (timers w)(h' := None) \<rparr>)"
      by (rule timersOwned_fired)
    moreover have "timersOwned (fireTimer h' w)
                     = timersOwned (w \<lparr> timers := (timers w)(h' := None) \<rparr>)"
      by (rule timersOwned_same) (simp_all add: warning(2))
    ultimately have "timersOwned (fireTimer h' w)" by blast
    with w ne show ?thesis
      by (simp add: TimerFires warning(2) waiting_def)
  next
    case (error ms)
    from w have "timersOwned w" "errorTimeoutId w = Some h" by (simp_all add: waiting_def)
    with error(1) have "h' = h" unfolding timersOwned_def by fastforce
    with ne show ?thesis by blast
  qed
next
  case Cleanup
  with x(1) show ?thesis by blast
qed

lemma waiting_run:
  assumes "waiting h w"
    and "\<forall>(e, t) \<in> set ts.
           t \<noteq> Cleanup \<and> t \<noteq> TimerFires h \<and> (t = ZarazConsentAPIReady \<longrightarrow> \<not> apiReady e)"
  shows "waiting h (run w ts)"
  using assms
proof (induction ts arbitrary: w)
  case Nil
  then show ?case by simp
next
  case (Cons x ts)
  obtain e t where x: "x = (e, t)" by (cases x)
  from Cons.prems(2) have
    "t \<noteq> Cleanup" "t \<noteq> TimerFires h" "t = ZarazConsentAPIReady \<longrightarrow> \<not> apiReady e"
    by (simp_all add: x)
  with Cons.prems(1) have "waiting h (step w (e, t))" by (rule waiting_step)
  moreover from Cons.prems(2) have
    "\<forall>(e, t) \<in> set ts.
       t \<noteq> Cleanup \<and> t \<noteq> TimerFires h \<and> (t = ZarazConsentAPIReady \<longrightarrow> \<not> apiReady e)"
    by simp
  ultimately show ?case using Cons.IH by (simp add: x)
qed

lemma fallback_fires:
  "timers w h = Some (ms, ErrorTimeout) \<Longrightarrow>
   gatingState (step w (e, TimerFires h)) = READY_DENIED
   \<and> eventQueue (step w (e, TimerFires h)) = []
   \<and> timers (step w (e, TimerFires h)) h = None"
  by (simp add: fireTimer_error gatingState_def)

text \<open>
  Claim C8. Firing the fallback timer makes readiness determined with consent denied and
  empties the queue. If Zaraz is not ready at setup and never reports ready, and the
  instance is not cleaned up, the fallback timer armed with 45000 ms is still pending
  under the handle after the warning's, the state is still undetermined, and firing it
  gives the denied state with an empty queue. The callback only logs and assigns: the
  step is an ordinary state change, with no failure case.
\<close>

theorem fallback_timeout_denies:
  "(timers w h = Some (ms, ErrorTimeout) \<longrightarrow>
      gatingState (step w (e, TimerFires h)) = READY_DENIED
      \<and> eventQueue (step w (e, TimerFires h)) = [])
   \<and> (\<not> apiReady e0
       \<and> (\<forall>(e, t) \<in> set ts.
             t \<noteq> Cleanup \<and> t \<noteq> TimerFires (Suc (Suc l))
             \<and> (t = ZarazConsentAPIReady \<longrightarrow> \<not> apiReady e))
       \<longrightarrow>
      gatingState (run (setupOnce e0 (construct opts sc ce l)) ts) = NOT_READY
      \<and> timers (run (setupOnce e0 (construct opts sc ce l)) ts) (Suc (Suc l))
          = Some (45000, ErrorTimeout)
      \<and> gatingState (step (run (setupOnce e0 (construct opts sc ce l)) ts)
            (e, TimerFires (Suc (Suc l)))) = READY_DENIED
      \<and> eventQueue (step (run (setupOnce e0 (construct opts sc ce l)) ts)
            (e, TimerFires (Suc (Suc l)))) = [])"
proof (intro conjI impI)
  assume "timers w h = Some (ms, ErrorTimeout)"
  then show "gatingState (step w (e, TimerFires h)) = READY_DENIED"
    and "eventQueue (step w (e, TimerFires h)) = []"
    using fallback_fires by blast+
next
  assume a: "\<not> apiReady e0
       \<and> (\<forall>(e, t) \<in> set ts.
             t \<noteq> Cleanup \<and> t \<noteq> TimerFires (Suc (Suc l))
             \<and> (t = ZarazConsentAPIReady \<longrightarrow> \<not> apiReady e))"
  define W where "W = run (setupOnce e0 (construct opts sc ce l)) ts"
  from a have "waiting (Suc (Suc l)) (setupOnce e0 (construct opts sc ce l))"
    using waiting_setupOnce by blast
  with a have wt: "waiting (Suc (Suc l)) W"
    unfolding W_def using waiting_run by blast
  then have p: "timers W (Suc (Suc l)) = Some (45000, ErrorTimeout)"
    and n: "\<not> isConsentReady W"
    by (simp_all add: waiting_def)
  from n show "gatingState (run (setupOnce e0 (construct opts sc ce l)) ts) = NOT_READY"
    by (simp add: gatingState_def W_def)
  from p show "timers (run (setupOnce e0 (construct opts sc ce l)) ts) (Suc (Suc l))
          = Some (45000, ErrorTimeout)"
    by (simp add: W_def)
  from fallback_fires [OF p]
  show "gatingState (step (run (setupOnce e0 (construct opts sc ce l)) ts)
            (e, TimerFires (Suc (Suc l)))) = READY_DENIED"
    and "eventQueue (step (run (setupOnce e0 (construct opts sc ce l)) ts)
            (e, TimerFires (Suc (Suc l)))) = []"
    by (simp_all add: W_def)
qed

section \<open>Cancellation of the delayed callbacks\<close>

lemma fireTimer_idle: "timers w = Map.empty \<Longrightarrow> fireTimer h w = w"
  by (simp add: fireTimer_none)

lemma consentChanged_funpow_timers:
  "timers (((consentChanged e) ^^ n) w) = timers w"
  by (induction n) simp_all

lemma handleZarazLoaded_timers_empty:
  "timers w = Map.empty \<Longrightarrow> timers (handleZarazLoaded e w) = Map.empty"
  by (rule ext)
     (simp add: handleZarazLoaded_def clearWarningAndErrorTimeouts_timers checkConsent_timers)

lemma timers_empty_step: "timers w = Map.empty \<Longrightarrow> timers (step w x) = Map.empty"
proof -
  assume t: "timers w = Map.empty"
  obtain e tr where x: "x = (e, tr)" by (cases x)
  show ?thesis
  proof (cases tr)
    case (Capture ev h)
    with t show ?thesis by (simp add: x)
  next
    case ZarazConsentAPIReady
    with t show ?thesis by (simp add: x handleZarazLoaded_timers_empty)
  next
    case ZarazConsentChoicesUpdated
    with t show ?thesis by (simp add: x consentChanged_funpow_timers del: funpow.simps)
  next
    case (TimerFires h)
    with t show ?thesis by (simp add: x fireTimer_idle)
  next
    case Cleanup
    with t show ?thesis by (simp add: x cleanup_timers timers_empty_clear)
  qed
qed

lemma timers_empty_run: "timers w = Map.empty \<Longrightarrow> timers (run w ts) = Map.empty"
  by (induction ts arbitrary: w) (simp_all add: timers_empty_step)

lemma normal_resolution_step:
  assumes m: "monitored w" and z: "zarazLoadedListener w" and a: "apiReady e"
  shows "isConsentReady (step w (e, ZarazConsentAPIReady))"
    and "timers (step w (e, ZarazConsentAPIReady)) = Map.empty"
    and "\<not> zarazLoadedListener (step w (e, ZarazConsentAPIReady))"
proof -
  have s: "step w (e, ZarazConsentAPIReady)
            = clearWarningAndErrorTimeouts ((checkConsent e w) \<lparr> zarazLoadedListener := False \<rparr>)"
    using z a by (simp add: handleZarazLoaded_def)
  show "isConsentReady (step w (e, ZarazConsentAPIReady))" unfolding s by simp
  show n: "\<not> zarazLoadedListener (step w (e, ZarazConsentAPIReady))" unfolding s by simp
  have "monitored (step w (e, ZarazConsentAPIReady))" using m by (rule monitored_step)
  then show "timers (step w (e, ZarazConsentAPIReady)) = Map.empty"
    using n monitoredD(6) by blast
qed

lemma setupOnce_ready:
  assumes a: "apiReady e"
  shows "timers (setupOnce e (construct opts sc ce l)) = Map.empty"
    and "isConsentReady (setupOnce e (construct opts sc ce l))"
proof -
  have s: "setupOnce e (construct opts sc ce l)
            = checkConsent e (captureOriginalScopeData
                (captureOriginalSentryConfig
                   ((construct opts sc ce l) \<lparr> currentSentryHub := True \<rparr>)))"
    using a by (simp add: setupOnce_def initializeConsentMonitoring_ready)
  show "isConsentReady (setupOnce e (construct opts sc ce l))" unfolding s by simp
  have "\<not> zarazLoadedListener (setupOnce e (construct opts sc ce l))" unfolding s by simp
  then show "timers (setupOnce e (construct opts sc ce l)) = Map.empty"
    using monitoredD(6) [OF monitored_setupOnce] by blast
qed

text \<open>
  Claim C9. When Zaraz is ready at setup no timer is ever pending. When the one-shot
  readiness listener runs \<open>checkConsent\<close>, readiness is determined and no timer is pending
  afterwards; nothing that happens later makes one pending again, so every later timer
  expiry is without effect.
\<close>

theorem timers_cancelled_on_resolution:
  "(apiReady e0 \<longrightarrow>
      isConsentReady (setupOnce e0 (construct opts sc ce l))
      \<and> timers (run (setupOnce e0 (construct opts sc ce l)) ts) = Map.empty
      \<and> step (run (setupOnce e0 (construct opts sc ce l)) ts) (e', TimerFires h)
          = run (setupOnce e0 (construct opts sc ce l)) ts)
   \<and> (zarazLoadedListener (run (setupOnce e0 (construct opts sc ce l)) ts) \<and> apiReady e \<longrightarrow>
      isConsentReady
        (step (run (setupOnce e0 (construct opts sc ce l)) ts) (e, ZarazConsentAPIReady))
      \<and> timers
          (step (run (setupOnce e0 (construct opts sc ce l)) ts) (e, ZarazConsentAPIReady))
          = Map.empty
      \<and> timers
          (run (step (run (setupOnce e0 (construct opts sc ce l)) ts) (e, ZarazConsentAPIReady))
             ts') = Map.empty
      \<and> step
          (run (step (run (setupOnce e0 (construct opts sc ce l)) ts) (e, ZarazConsentAPIReady))
             ts') (e', TimerFires h)
          = run (step (run (setupOnce e0 (construct opts sc ce l)) ts) (e, ZarazConsentAPIReady))
              ts')"
proof (intro conjI impI)
  assume a: "apiReady e0"
  then show "isConsentReady (setupOnce e0 (construct opts sc ce l))"
    by (rule setupOnce_ready(2))
  from a have "timers (setupOnce e0 (construct opts sc ce l)) = Map.empty"
    by (rule setupOnce_ready(1))
  then show t: "timers (run (setupOnce e0 (construct opts sc ce l)) ts) = Map.empty"
    by (rule timers_empty_run)
  then show "step (run (setupOnce e0 (construct opts sc ce l)) ts) (e', TimerFires h)
          = run (setupOnce e0 (construct opts sc ce l)) ts"
    by (simp add: fireTimer_idle)
next
  define W where "W = run (setupOnce e0 (construct opts sc ce l)) ts"
  assume "zarazLoadedListener (run (setupOnce e0 (construct opts sc ce l)) ts) \<and> apiReady e"
  then have z: "zarazLoadedListener W" and a: "apiReady e" by (simp_all add: W_def)
  have m: "monitored W" unfolding W_def by (rule monitored_reachable)
  note r = normal_resolution_step [OF m z a]
  from r(1) show "isConsentReady
        (step (run (setupOnce e0 (construct opts sc ce l)) ts) (e, ZarazConsentAPIReady))"
    by (simp add: W_def)
  from r(2) show "timers
          (step (run (setupOnce e0 (construct opts sc ce l)) ts) (e, ZarazConsentAPIReady))
          = Map.empty"
    by (simp add: W_def)
  from r(2) have t: "timers (run (step W (e, ZarazConsentAPIReady)) ts') = Map.empty"
    by (rule timers_empty_run)
  then show "timers
          (run (step (run (setupOnce e0 (construct opts sc ce l)) ts) (e, ZarazConsentAPIReady))
             ts') = Map.empty"
    by (simp add: W_def)
  from t have "fireTimer h (run (step W (e, ZarazConsentAPIReady)) ts')
                 = run (step W (e, ZarazConsentAPIReady)) ts'"
    by (rule fireTimer_idle)
  then show "step
          (run (step (run (setupOnce e0 (construct opts sc ce l)) ts) (e, ZarazConsentAPIReady))
             ts') (e', TimerFires h)
          = run (step (run (setupOnce e0 (construct opts sc ce l)) ts) (e, ZarazConsentAPIReady))
              ts'"
    by (simp add: W_def)
qed

section \<open>Transitions of the gating state\<close>

lemma gating_step:
  assumes m: "monitored w"
  shows "isConsentReady w \<longrightarrow> isConsentReady (step w (e, t))"
    and "\<not> isConsentReady w \<and> isConsentReady (step w (e, t)) \<longrightarrow>
           (t = ZarazConsentAPIReady \<and> apiReady e \<and> zarazLoadedListener w)
           \<or> (\<exists>h ms. t = TimerFires h \<and> timers w h = Some (ms, ErrorTimeout))"
    and "isConsentReady w \<and> gatingState (step w (e, t)) \<noteq> gatingState w \<longrightarrow>
           t = ZarazConsentChoicesUpdated
           \<or> (t = ZarazConsentAPIReady \<and> apiReady e \<and> zarazLoadedListener w)"
proof -
  have n: "choicesUpdatedListeners w = 0 \<or> choicesUpdatedListeners w = 1"
    using monitoredD(2,3) [OF m] by blast
  have c: "isConsentReady (step w (e, ZarazConsentChoicesUpdated)) = isConsentReady w"
    using n by auto
  have r: "step w (e, ZarazConsentAPIReady) = w"
    if "\<not> (apiReady e \<and> zarazLoadedListener w)"
    using that by (auto simp: handleZarazLoaded_def)
  have k: "isConsentReady (step w (e, ZarazConsentAPIReady))"
    if "apiReady e \<and> zarazLoadedListener w"
    using that by (simp add: handleZarazLoaded_def)
  have f: "isConsentReady w \<longrightarrow> gatingState (fireTimer h w) = gatingState w" for h
  proof (cases rule: fireTimer_cases [of w h])
    case idle
    then show ?thesis by simp
  next
    case (warning ms)
    then show ?thesis by (simp add: gatingState_def)
  next
    case (error ms)
    then have "zarazLoadedListener w" using monitoredD(6) [OF m] by fastforce
    then have "\<not> hasConsent w" using monitoredD(10) [OF m] by blast
    then show ?thesis by (simp add: error(2) gatingState_def)
  qed
  have g: "isConsentReady (fireTimer h w) \<and> \<not> isConsentReady w
           \<longrightarrow> (\<exists>ms. timers w h = Some (ms, ErrorTimeout))" for h
    by (cases rule: fireTimer_cases [of w h]) simp_all
  have u: "isConsentReady w \<longrightarrow> isConsentReady (fireTimer h w)" for h
    by (cases rule: fireTimer_cases [of w h]) simp_all
  show "isConsentReady w \<longrightarrow> isConsentReady (step w (e, t))"
  proof (cases t)
    case ZarazConsentAPIReady
    then show ?thesis using r k by (cases "apiReady e \<and> zarazLoadedListener w") simp_all
  next
    case ZarazConsentChoicesUpdated
    then show ?thesis using c by simp
  next
    case (TimerFires h)
    then show ?thesis using u by simp
  qed simp_all
  show "\<not> isConsentReady w \<and> isConsentReady (step w (e, t)) \<longrightarrow>
           (t = ZarazConsentAPIReady \<and> apiReady e \<and> zarazLoadedListener w)
           \<or> (\<exists>h ms. t = TimerFires h \<and> timers w h = Some (ms, ErrorTimeout))"
  proof (cases t)
    case ZarazConsentAPIReady
    then show ?thesis using r by (cases "apiReady e \<and> zarazLoadedListener w") simp_all
  next
    case ZarazConsentChoicesUpdated
    then show ?thesis using c by simp
  next
    case (TimerFires h)
    then show ?thesis using g [of h] by auto
  qed simp_all
  show "isConsentReady w \<and> gatingState (step w (e, t)) \<noteq> gatingState w \<longrightarrow>
           t = ZarazConsentChoicesUpdated
           \<or> (t = ZarazConsentAPIReady \<and> apiReady e \<and> zarazLoadedListener w)"
  proof (cases t)
    case (Capture ev h)
    then show ?thesis by (simp add: gatingState_def)
  next
    case ZarazConsentAPIReady
    then show ?thesis using r by (cases "apiReady e \<and> zarazLoadedListener w") simp_all
  next
    case ZarazConsentChoicesUpdated
    then show ?thesis by simp
  next
    case (TimerFires h)
    then show ?thesis using f [of h] by simp
  next
    case Cleanup
    then show ?thesis by (simp add: gatingState_def)
  qed
qed

lemma resolutions_le_one: "monitored w \<Longrightarrow> resolutions w \<le> 1"
  using monitoredD(5,9) [of w] by (cases "zarazLoadedListener w") simp_all

text \<open>
  Claim C4, as the code has it. In every state reachable after \<open>setupOnce\<close>: a step never
  returns readiness to undetermined; readiness becomes determined only by the one-shot
  readiness listener running \<open>checkConsent\<close> or by the fallback timer (or at setup itself,
  exactly when Zaraz is ready then); once readiness is determined the gating state
  changes only on a change notification or on that one-shot listener, which stays
  registered after the fallback timeout; and \<open>checkConsent\<close> has run at most once.
\<close>

theorem gating_transitions:
  "(isConsentReady (run (setupOnce e0 (construct opts sc ce l)) ts) \<longrightarrow>
      isConsentReady (step (run (setupOnce e0 (construct opts sc ce l)) ts) (e, t)))
   \<and> (\<not> isConsentReady (run (setupOnce e0 (construct opts sc ce l)) ts)
       \<and> isConsentReady (step (run (setupOnce e0 (construct opts sc ce l)) ts) (e, t)) \<longrightarrow>
         (t = ZarazConsentAPIReady \<and> apiReady e
          \<and> zarazLoadedListener (run (setupOnce e0 (construct opts sc ce l)) ts))
         \<or> (\<exists>h ms. t = TimerFires h
               \<and> timers (run (setupOnce e0 (construct opts sc ce l)) ts) h
                   = Some (ms, ErrorTimeout)))
   \<and> (isConsentReady (run (setupOnce e0 (construct opts sc ce l)) ts)
       \<and> gatingState (step (run (setupOnce e0 (construct opts sc ce l)) ts) (e, t))
           \<noteq> gatingState (run (setupOnce e0 (construct opts sc ce l)) ts) \<longrightarrow>
         t = ZarazConsentChoicesUpdated
         \<or> (t = ZarazConsentAPIReady \<and> apiReady e
             \<and> zarazLoadedListener (run (setupOnce e0 (construct opts sc ce l)) ts)))
   \<and> resolutions (run (setupOnce e0 (construct opts sc ce l)) ts) \<le> 1
   \<and> (isConsentReady (setupOnce e0 (construct opts sc ce l)) \<longleftrightarrow> apiReady e0)"
proof -
  have m: "monitored (run (setupOnce e0 (construct opts sc ce l)) ts)"
    by (rule monitored_reachable)
  have s: "isConsentReady (setupOnce e0 (construct opts sc ce l)) \<longleftrightarrow> apiReady e0"
  proof (cases "apiReady e0")
    case True
    then show ?thesis using setupOnce_ready(2) by blast
  next
    case False
    then have "waiting (Suc (Suc l)) (setupOnce e0 (construct opts sc ce l))"
      by (rule waiting_setupOnce)
    with False show ?thesis by (simp add: waiting_def)
  qed
  show ?thesis
    using gating_step [OF m, of e t] resolutions_le_one [OF m] s by blast
qed

section \<open>Witnesses for the monitoring properties\<close>

lemma sample_envs [simp]:
  "\<not> apiReady env0" "apiReady envGranted" "apiReady envDenied"
  "st_functional (status envGranted)" "\<not> st_functional (status envDenied)"
  "\<not> st_functional (status env0)"
  by (simp_all add: apiReady_def env0_def envGranted_def envDenied_def zarazConsent_def)

lemma setupOnce_waiting_fields:
  assumes "\<not> apiReady e"
  shows "isConsentReady (setupOnce e (construct opts sc ce l)) = False"
    and "hasConsent (setupOnce e (construct opts sc ce l)) = False"
    and "eventQueue (setupOnce e (construct opts sc ce l)) = []"
    and "zarazLoadedListener (setupOnce e (construct opts sc ce l)) = True"
    and "choicesUpdatedListeners (setupOnce e (construct opts sc ce l)) = 0"
    and "eventLog (setupOnce e (construct opts sc ce l)) = []"
    and "timers (setupOnce e (construct opts sc ce l)) =
           [Suc l \<mapsto> (20000, WarningTimeout), Suc (Suc l) \<mapsto> (45000, ErrorTimeout)]"
    and "warningTimeoutId (setupOnce e (construct opts sc ce l)) = Some (Suc l)"
    and "errorTimeoutId (setupOnce e (construct opts sc ce l)) = Some (Suc (Suc l))"
  using assms by (simp_all add: setupOnce_def initializeConsentMonitoring_waiting)



theorem fallback_timeout_denies_witness:
  "timers (setupOnce env0 (construct None None True 0)) (Suc (Suc 0)) = Some (45000, ErrorTimeout)
   \<and> eventQueue (run (setupOnce env0 (construct None None True 0))
        [(env0, Capture ev1 ''h1''), (env0, ZarazConsentAPIReady), (env0, TimerFires (Suc 0))])
       = [(ev1, ''h1'')]
   \<and> gatingState (run (setupOnce env0 (construct None None True 0))
        [(env0, Capture ev1 ''h1''), (env0, ZarazConsentAPIReady), (env0, TimerFires (Suc 0))])
       = NOT_READY
   \<and> gatingState (step (run (setupOnce env0 (construct None None True 0))
        [(env0, Capture ev1 ''h1''), (env0, ZarazConsentAPIReady), (env0, TimerFires (Suc 0))])
        (env0, TimerFires (Suc (Suc 0)))) = READY_DENIED
   \<and> eventQueue (step (run (setupOnce env0 (construct None None True 0))
        [(env0, Capture ev1 ''h1''), (env0, ZarazConsentAPIReady), (env0, TimerFires (Suc 0))])
        (env0, TimerFires (Suc (Suc 0)))) = []"
  using fallback_timeout_denies
      [of "setupOnce env0 (construct None None True 0)" "Suc (Suc 0)" 45000 env0 env0
          "[(env0, Capture ev1 ''h1''), (env0, ZarazConsentAPIReady), (env0, TimerFires (Suc 0))]"
          0 None None True]
  by (simp add: setupOnce_waiting_fields handleZarazLoaded_def fireTimer_def gatingState_def
        processEvent_def)

lemma setupOnce_ready_checkConsent:
  "apiReady e \<Longrightarrow>
   setupOnce e w = checkConsent e (captureOriginalScopeData
                     (captureOriginalSentryConfig (w \<lparr> currentSentryHub := True \<rparr>)))"
  by (simp add: setupOnce_def initializeConsentMonitoring_ready)

lemma sample_status:
  "status envGranted = \<lparr> st_functional = True, st_analytics = False, st_marketing = False,
                              st_preferences = False, st_insertedAt = orderOf purposeKeys \<rparr>"
  "status envDenied = \<lparr> st_functional = False, st_analytics = False, st_marketing = False,
                             st_preferences = False, st_insertedAt = orderOf purposeKeys \<rparr>"
  "status envGrantedReordered =
     \<lparr> st_functional = True, st_analytics = False, st_marketing = False,
       st_preferences = False,
       st_insertedAt = orderOf [''analytics'', ''functional'', ''marketing'', ''preferences''] \<rparr>"
  by (simp_all add: envGranted_def envDenied_def envGrantedReordered_def)

theorem timers_cancelled_on_resolution_witness:
  "isConsentReady (setupOnce envGranted (construct None None True 0))
   \<and> timers (run (setupOnce envGranted (construct None None True 0))
        [(env0, Capture ev1 ''h1'')]) = Map.empty
   \<and> zarazLoadedListener (run (setupOnce env0 (construct None None True 0))
        [(env0, Capture ev1 ''h1'')])
   \<and> timers (run (setupOnce env0 (construct None None True 0))
        [(env0, Capture ev1 ''h1'')]) (Suc 0) = Some (20000, WarningTimeout)
   \<and> timers (run (setupOnce env0 (construct None None True 0))
        [(env0, Capture ev1 ''h1'')]) (Suc (Suc 0)) = Some (45000, ErrorTimeout)
   \<and> gatingState (run (setupOnce env0 (construct None None True 0))
        [(env0, Capture ev1 ''h1'')]) = NOT_READY
   \<and> gatingState (step (run (setupOnce env0 (construct None None True 0))
        [(env0, Capture ev1 ''h1'')]) (envGranted, ZarazConsentAPIReady)) = READY_GRANTED
   \<and> timers (step (run (setupOnce env0 (construct None None True 0))
        [(env0, Capture ev1 ''h1'')]) (envGranted, ZarazConsentAPIReady)) = Map.empty
   \<and> step (run (step (run (setupOnce env0 (construct None None True 0))
        [(env0, Capture ev1 ''h1'')]) (envGranted, ZarazConsentAPIReady))
          [(env0, Capture ev2 ''h2'')]) (env0, TimerFires (Suc (Suc 0)))
       = run (step (run (setupOnce env0 (construct None None True 0))
        [(env0, Capture ev1 ''h1'')]) (envGranted, ZarazConsentAPIReady))
          [(env0, Capture ev2 ''h2'')]"
  using timers_cancelled_on_resolution
      [of envGranted None None True 0 "[(env0, Capture ev1 ''h1'')]" env0 "Suc (Suc 0)"
          envGranted "[]"]
    timers_cancelled_on_resolution
      [of env0 None None True 0 "[(env0, Capture ev1 ''h1'')]" env0 "Suc (Suc 0)"
          envGranted "[(env0, Capture ev2 ''h2'')]"]
  by (simp add: setupOnce_waiting_fields handleZarazLoaded_def gatingState_def)

theorem gating_transitions_witness:
  "\<not> isConsentReady (run (setupOnce env0 (construct None None True 0)) [])
   \<and> isConsentReady (step (run (setupOnce env0 (construct None None True 0)) [])
        (env0, TimerFires (Suc (Suc 0))))
   \<and> timers (run (setupOnce env0 (construct None None True 0)) []) (Suc (Suc 0))
       = Some (45000, ErrorTimeout)
   \<and> isConsentReady (run (setupOnce envDenied (construct None None True 0)) [])
   \<and> gatingState (run (setupOnce envDenied (construct None None True 0)) []) = READY_DENIED
   \<and> gatingState (step (run (setupOnce envDenied (construct None None True 0)) [])
        (envGranted, ZarazConsentChoicesUpdated)) = READY_GRANTED
   \<and> resolutions (step (run (setupOnce envDenied (construct None None True 0)) [])
        (envGranted, ZarazConsentChoicesUpdated)) = 1
   \<and> isConsentReady (step (step (run (setupOnce envDenied (construct None None True 0)) [])
        (envGranted, ZarazConsentChoicesUpdated)) (env0, Cleanup))"
  using gating_transitions
      [of env0 None None True 0 "[]" env0 "TimerFires (Suc (Suc 0))"]
    gating_transitions
      [of envDenied None None True 0 "[]" envGranted ZarazConsentChoicesUpdated]
    gating_transitions
      [of envDenied None None True 0 "[(envGranted, ZarazConsentChoicesUpdated)]" env0 Cleanup]
  by (simp add: setupOnce_waiting_fields fireTimer_def gatingState_def resolutions_def
        setupOnce_ready_checkConsent consentChanged_def Let_def
        updateIntegrationConfigs_def asConsentState_def sample_status)

text \<open>
  Claim C4 as stated does not hold: the first resolution can still run after the
  fallback timeout. Zaraz is not ready at
  setup, the fallback timer fires and forces the denied state with no resolution made,
  then Zaraz reports ready with functional consent granted. \<open>checkConsent\<close> runs, the
  state becomes granted and the change listener is registered.
\<close>

theorem first_resolution_after_fallback:
  "gatingState (setupOnce env0 (construct None None True 0)) = NOT_READY
   \<and> gatingState (run (setupOnce env0 (construct None None True 0))
        [(env0, TimerFires (Suc (Suc 0)))]) = READY_DENIED
   \<and> resolutions (run (setupOnce env0 (construct None None True 0))
        [(env0, TimerFires (Suc (Suc 0)))]) = 0
   \<and> choicesUpdatedListeners (run (setupOnce env0 (construct None None True 0))
        [(env0, TimerFires (Suc (Suc 0)))]) = 0
   \<and> gatingState (run (setupOnce env0 (construct None None True 0))
        [(env0, TimerFires (Suc (Suc 0))), (envGranted, ZarazConsentAPIReady)]) = READY_GRANTED
   \<and> resolutions (run (setupOnce env0 (construct None None True 0))
        [(env0, TimerFires (Suc (Suc 0))), (envGranted, ZarazConsentAPIReady)]) = 1
   \<and> choicesUpdatedListeners (run (setupOnce env0 (construct None None True 0))
        [(env0, TimerFires (Suc (Suc 0))), (envGranted, ZarazConsentAPIReady)]) = 1
   \<and> eventLog (run (setupOnce env0 (construct None None True 0))
        [(env0, TimerFires (Suc (Suc 0))), (envGranted, ZarazConsentAPIReady)])
       = [''Zaraz loading error'', ''Consent granted'']"
  by (simp add: setupOnce_waiting_fields fireTimer_def gatingState_def resolutions_def
        handleZarazLoaded_def)


end
